theory Spec2Isabelle
  imports Complex_Main "HOL-Library.Word"
begin

unbundle bit_operations_syntax

section \<open>Constants\<close>

subsection \<open>The generated shader header (src/unnamed/part\_000)\<close>

definition MAX_BOTTOM_LEVEL_GEOMETRIES_COUNT :: "32 word" where
  "MAX_BOTTOM_LEVEL_GEOMETRIES_COUNT = 4096"

definition MAX_TOP_LEVEL_INSTANCE_COUNT :: nat where
  "MAX_TOP_LEVEL_INSTANCE_COUNT = 45"

definition INSTANCE_CUSTOM_INDEX_FLAG_DYNAMIC :: "32 word" where
  "INSTANCE_CUSTOM_INDEX_FLAG_DYNAMIC = push_bit 0 1"

definition SBT_INDEX_HITGROUP_FULLY_OPAQUE :: "32 word" where
  "SBT_INDEX_HITGROUP_FULLY_OPAQUE = 0"

definition SBT_INDEX_HITGROUP_ALPHA_TESTED :: "32 word" where
  "SBT_INDEX_HITGROUP_ALPHA_TESTED = 1"

definition GEOM_INST_FLAG_IS_MOVABLE :: "32 word" where
  "GEOM_INST_FLAG_IS_MOVABLE = push_bit 31 1"

text \<open>\<open>ivec4 instanceGeomInfoOffset[12]\<close> of \<open>ShGlobalUniform\<close>: 12 vectors of 4 ints.\<close>

definition UNIFORM_OFFSET_VEC4_COUNT :: nat where
  "UNIFORM_OFFSET_VEC4_COUNT = 12"

text \<open>\<open>UINT32_MAX\<close> of \<open>cstdint\<close>, also the shaders' sentinel.\<close>

definition UINT32_MAX :: "32 word" where
  "UINT32_MAX = 0xFFFFFFFF"

subsection \<open>Constants whose declarations are not among the sources\<close>

text \<open>
  Modelled from the spec: \<open>INSTANCE_MASK_HAS_SHADOWS\<close>,
  \<open>SBT_INDEX_HITGROUP_BLEND_ADDITIVE\<close> and \<open>SBT_INDEX_HITGROUP_BLEND_UNDER\<close> are used by
  \<open>ASManager::SetupTLASInstance\<close>, but the generated header among the sources does not
  declare them. The spec speaks of a traversal mask that excludes shadow rays, and of one
  shader-binding-table record offset per pass-through class; the mask is one bit, and the
  two offsets continue the header's numbering.
\<close>

definition INSTANCE_MASK_HAS_SHADOWS :: "32 word" where
  "INSTANCE_MASK_HAS_SHADOWS = 1"

definition SBT_INDEX_HITGROUP_BLEND_ADDITIVE :: "32 word" where
  "SBT_INDEX_HITGROUP_BLEND_ADDITIVE = 2"

definition SBT_INDEX_HITGROUP_BLEND_UNDER :: "32 word" where
  "SBT_INDEX_HITGROUP_BLEND_UNDER = 3"

text \<open>
  Modelled from the spec: \<open>VertexCollectorFilterTypeFlagBits\<close> and the two filter groups
  (header \<open>VertexCollectorFilterType.h\<close>, not among the sources). The spec's filter tag is
  a bitmask, (change-frequency class) x (pass-through class), with the classes
  static-non-movable, static-movable, dynamic and fully-opaque, alpha-tested,
  blend-additive, blend-under: one bit each.
\<close>

definition CF_STATIC_NON_MOVABLE :: "32 word" where
  "CF_STATIC_NON_MOVABLE = push_bit 0 1"

definition CF_STATIC_MOVABLE :: "32 word" where
  "CF_STATIC_MOVABLE = push_bit 1 1"

definition CF_DYNAMIC :: "32 word" where
  "CF_DYNAMIC = push_bit 2 1"

definition PT_OPAQUE :: "32 word" where
  "PT_OPAQUE = push_bit 3 1"

definition PT_ALPHA_TESTED :: "32 word" where
  "PT_ALPHA_TESTED = push_bit 4 1"

definition PT_BLEND_ADDITIVE :: "32 word" where
  "PT_BLEND_ADDITIVE = push_bit 5 1"

definition PT_BLEND_UNDER :: "32 word" where
  "PT_BLEND_UNDER = push_bit 6 1"

definition VertexCollectorFilterGroup_ChangeFrequency :: "32 word list" where
  "VertexCollectorFilterGroup_ChangeFrequency =
     [CF_STATIC_NON_MOVABLE, CF_STATIC_MOVABLE, CF_DYNAMIC]"

definition VertexCollectorFilterGroup_PassThrough :: "32 word list" where
  "VertexCollectorFilterGroup_PassThrough =
     [PT_OPAQUE, PT_ALPHA_TESTED, PT_BLEND_ADDITIVE, PT_BLEND_UNDER]"

text \<open>
  Modelled from the spec: \<open>MAX_FRAMES_IN_FLIGHT\<close> (header \<open>Const.h\<close>, not among the
  sources); the spec's pipeline is double-buffered.
\<close>

definition MAX_FRAMES_IN_FLIGHT :: nat where
  "MAX_FRAMES_IN_FLIGHT = 2"

subsection \<open>Vulkan\<close>

definition VK_NULL_HANDLE :: nat where
  "VK_NULL_HANDLE = 0"

definition VK_GEOMETRY_INSTANCE_TRIANGLE_FACING_CULL_DISABLE_BIT_KHR :: "32 word" where
  "VK_GEOMETRY_INSTANCE_TRIANGLE_FACING_CULL_DISABLE_BIT_KHR = 1"

definition VK_GEOMETRY_INSTANCE_FORCE_OPAQUE_BIT_KHR :: "32 word" where
  "VK_GEOMETRY_INSTANCE_FORCE_OPAQUE_BIT_KHR = 4"

definition VK_GEOMETRY_INSTANCE_FORCE_NO_OPAQUE_BIT_KHR :: "32 word" where
  "VK_GEOMETRY_INSTANCE_FORCE_NO_OPAQUE_BIT_KHR = 8"

section \<open>Data model\<close>

text \<open>
  Modelled from the spec: class \<open>Buffer\<close> (not among the sources), the backing buffer
  of the spec's structure record, is its handle and its size. A Vulkan handle is a
  natural number, \<open>VK_NULL_HANDLE\<close> is 0; \<open>IsInitted\<close> asks for a handle, \<open>GetSize\<close> for
  the size.
\<close>

record Buffer =
  bufHandle :: nat
  bufSize :: nat

definition emptyBuffer :: Buffer where
  "emptyBuffer = \<lparr>bufHandle = VK_NULL_HANDLE, bufSize = 0\<rparr>"

definition IsInitted :: "Buffer \<Rightarrow> bool" where
  "IsInitted b = (bufHandle b \<noteq> VK_NULL_HANDLE)"

definition GetSize :: "Buffer \<Rightarrow> nat" where
  "GetSize b = bufSize b"

text \<open>
  \<open>struct AccelerationStructure\<close>, with the members ASManager.cpp uses (\<open>as\<close>,
  \<open>buffer\<close>, \<open>filter\<close>): native handle, backing buffer, owning filter.
\<close>

record AccelerationStructure =
  as_handle :: nat
  as_buffer :: Buffer
  as_filter :: "32 word"

text \<open>
  \<open>VkAccelerationStructureInstanceKHR\<close>: a 3x4 transform, a 24-bit custom index with an
  8-bit mask, a 24-bit record offset with 8-bit flags, and the 64-bit reference.
\<close>

record VkAccelerationStructureInstanceKHR =
  transform :: "real list"
  instanceCustomIndex :: "24 word"
  instance_mask :: "8 word"
  instanceShaderBindingTableRecordOffset :: "24 word"
  flags :: "8 word"
  accelerationStructureReference :: "64 word"

text \<open>The value of \<open>VkAccelerationStructureInstanceKHR instances[32] = {}\<close>, per entry.\<close>

definition zeroInstance :: VkAccelerationStructureInstanceKHR where
  "zeroInstance =
     \<lparr>transform = replicate 12 0, instanceCustomIndex = 0, instance_mask = 0,
      instanceShaderBindingTableRecordOffset = 0, flags = 0,
      accelerationStructureReference = 0\<rparr>"

text \<open>
  Modelled from the spec: \<open>RgGeometryUploadInfo\<close> with its two enumerations (the public
  header is not among the sources), after the spec's geometry upload record:
  classification, pass-through class, transform, the material handles of the three
  layers. The manager reads \<open>geomType\<close> and \<open>geomMaterial.layerMaterials\<close>.
\<close>

datatype RgGeometryType =
  RG_GEOMETRY_TYPE_STATIC | RG_GEOMETRY_TYPE_STATIC_MOVABLE | RG_GEOMETRY_TYPE_DYNAMIC

datatype RgGeometryPassThroughType =
  RG_GEOMETRY_PASS_THROUGH_TYPE_OPAQUE | RG_GEOMETRY_PASS_THROUGH_TYPE_ALPHA_TESTED
  | RG_GEOMETRY_PASS_THROUGH_TYPE_BLEND_ADDITIVE | RG_GEOMETRY_PASS_THROUGH_TYPE_BLEND_UNDER

record RgGeometryUploadInfo =
  geomType :: RgGeometryType
  passThroughType :: RgGeometryPassThroughType
  vertexCount :: "32 word"
  layerMaterials :: "nat \<times> nat \<times> nat"
  geomTransform :: "real list"

text \<open>
  Modelled from the spec: the state of a \<open>VertexCollector\<close> (not among the sources), the
  geometries it holds in the order they were added. One geometry is the index
  \<open>AddGeometry\<close> returned for it, its filter, the upload info with the current transform,
  and its three material texture sets.
\<close>

record CollectedGeometry =
  cgIndex :: "32 word"
  cgFilter :: "32 word"
  cgInfo :: RgGeometryUploadInfo
  cgMaterials :: "nat list \<times> nat list \<times> nat list"

record VertexCollector =
  vcGeometries :: "CollectedGeometry list"

text \<open>
  Modelled from the spec: one request staged in the builder by \<open>AddBLAS\<close> or \<open>AddTLAS\<close>
  (\<open>ASBuilder\<close>, not among the sources): the structure's handle, the number of
  geometries or instances, the build size, fast trace or fast build, build or update.
\<close>

record BuildRequest =
  brHandle :: nat
  brPrimitiveCount :: nat
  brSize :: nat
  brFastTrace :: bool
  brUpdate :: bool

text \<open>What the manager does to the device and to command buffers, in order.\<close>

datatype Event =
  EvCreateBuffer nat nat
  | EvDestroyBuffer nat
  | EvCreateAS nat nat
  | EvDestroyAS nat
  | EvCopyFromStaging bool
  | EvBuildBottomLevel "BuildRequest list"
  | EvBuildTopLevel "BuildRequest list"
  | EvASBuildMemoryBarrier
  | EvSubmitAndWait

text \<open>
  Modelled from the spec: the device with the builder's queues (\<open>ASBuilder\<close>, not among
  the sources): the number of handles it has given out (a new handle is the next number,
  never \<open>VK_NULL_HANDLE\<close>), the requests waiting for \<open>BuildBottomLevel\<close> and
  \<open>BuildTopLevel\<close>, and the calls made so far.
\<close>

record Device =
  handleCount :: nat
  bottomQueue :: "BuildRequest list"
  topQueue :: "BuildRequest list"
  vkTrace :: "Event list"

text \<open>
  \<open>struct ShGlobalUniform\<close> (part\_000, 112-191): the offset table
  \<open>instanceGeomInfoOffset\<close>, as the ints of its 12 vectors in order; the other members
  are not read or written by the functions below.
\<close>

record GlobalUniform =
  uniformInstanceGeomInfoOffset :: "32 word list"

text \<open>
  \<open>class ASManager\<close>: the members the operations below read and write. The arrays
  indexed by frame (\<open>allDynamicBlas\<close>, \<open>tlas\<close>, \<open>collectorDynamic\<close>,
  \<open>instanceBuffers\<close>) are lists.
\<close>

record ASManager =
  dev :: Device
  allStaticBlas :: "AccelerationStructure list"
  allDynamicBlas :: "AccelerationStructure list list"
  tlas :: "AccelerationStructure list"
  collectorStatic :: VertexCollector
  collectorDynamic :: "VertexCollector list"
  instanceBuffers :: "VkAccelerationStructureInstanceKHR list list"

text \<open>
  An error is a way the C++ does not return: a failed \<open>assert\<close> (when compiled in; this
  includes \<open>VK_CHECKERROR\<close>, which only asserts), a failed allocation, or an access past
  the end of an array, named with the index used (undefined behaviour in the source).
\<close>

datatype error =
  AssertionFailed
  | AllocationFailed
  | ArrayOverrun string nat

text \<open>
  What the manager is given from outside: whether \<open>assert\<close> is compiled in, the functions
  of this repository that are not among the sources, the answers of the Vulkan device, and
  the indeterminate content of an uninitialised local array.
\<close>

record Env =
  assertsEnabled :: bool
  VertexCollectorFilterTypeFlagsToOffset :: "32 word \<Rightarrow> 32 word"
  GetMaterialTextures :: "nat \<Rightarrow> nat list"
  GetBottomBuildSizes :: "CollectedGeometry list \<Rightarrow> bool \<Rightarrow> nat"
  GetTopBuildSizes :: "nat \<Rightarrow> nat"
  deviceCanAllocate :: "nat \<Rightarrow> bool"
  deviceCanCreateAS :: "nat \<Rightarrow> bool"
  GetASAddress :: "nat \<Rightarrow> 64 word"
  stackGarbage :: "nat \<Rightarrow> 32 word"

section \<open>Buffers, structures and the builder\<close>

text \<open>
  Modelled from the spec: \<open>Buffer::Init\<close> and \<open>Buffer::Destroy\<close> (class \<open>Buffer\<close>, not
  among the sources). A failed allocation is a fatal, surfaced error; a buffer that was
  created has the size asked for. \<open>Destroy\<close> gives the handle back and leaves an
  uninitialised buffer of size 0; on an uninitialised buffer it does nothing to the
  device.
\<close>

definition Buffer_Init :: "Env \<Rightarrow> nat \<Rightarrow> Device \<Rightarrow> error + Device \<times> Buffer" where
  "Buffer_Init env sz d =
     (if \<not> deviceCanAllocate env sz then Inl AllocationFailed
      else Inr (d\<lparr>handleCount := handleCount d + 1,
                  vkTrace := vkTrace d @ [EvCreateBuffer (handleCount d + 1) sz]\<rparr>,
                \<lparr>bufHandle = handleCount d + 1, bufSize = sz\<rparr>))"

definition Buffer_Destroy :: "Device \<Rightarrow> Buffer \<Rightarrow> Device \<times> Buffer" where
  "Buffer_Destroy d b =
     (if bufHandle b \<noteq> VK_NULL_HANDLE
      then (d\<lparr>vkTrace := vkTrace d @ [EvDestroyBuffer (bufHandle b)]\<rparr>, emptyBuffer)
      else (d, emptyBuffer))"

text \<open>\<open>ASManager::DestroyAS\<close> (810-819).\<close>

definition DestroyAS ::
  "Device \<Rightarrow> AccelerationStructure \<Rightarrow> Device \<times> AccelerationStructure" where
  "DestroyAS d a =
     (case Buffer_Destroy d (as_buffer a) of
        (d1, b) \<Rightarrow>
          if as_handle a \<noteq> VK_NULL_HANDLE
          then (d1\<lparr>vkTrace := vkTrace d1 @ [EvDestroyAS (as_handle a)]\<rparr>,
                a\<lparr>as_buffer := b, as_handle := VK_NULL_HANDLE\<rparr>)
          else (d1, a\<lparr>as_buffer := b\<rparr>))"

text \<open>\<open>ASManager::CreateASBuffer\<close> (800-808).\<close>

definition CreateASBuffer ::
  "Env \<Rightarrow> nat \<Rightarrow> Device \<Rightarrow> AccelerationStructure
     \<Rightarrow> error + Device \<times> AccelerationStructure" where
  "CreateASBuffer env sz d a =
     (case Buffer_Init env sz d of
        Inl e \<Rightarrow> Inl e
      | Inr (d1, b) \<Rightarrow> Inr (d1, a\<lparr>as_buffer := b\<rparr>))"

text \<open>
  \<open>svkCreateAccelerationStructureKHR\<close> followed by \<open>VK_CHECKERROR\<close> (ASManager.cpp,
  399-400 and 779-780). \<open>VK_CHECKERROR\<close> is \<open>_VkCheckError\<close> (part\_003, 155; part\_002,
  65-92), which does nothing but \<open>assert(r == VK_SUCCESS)\<close>. When the device creates the
  structure, the handle is a fresh one on the structure's buffer. When it does not, a
  build with \<open>assert\<close> compiled in stops at the assertion, and a build without goes on:
  nothing was created and the handle is left as it was.
\<close>

definition CreateAccelerationStructure ::
  "Env \<Rightarrow> nat \<Rightarrow> Device \<Rightarrow> AccelerationStructure
     \<Rightarrow> error + Device \<times> AccelerationStructure" where
  "CreateAccelerationStructure env sz d a =
     (if deviceCanCreateAS env sz
      then Inr (d\<lparr>handleCount := handleCount d + 1,
                  vkTrace := vkTrace d
                    @ [EvCreateAS (handleCount d + 1) (bufHandle (as_buffer a))]\<rparr>,
                a\<lparr>as_handle := handleCount d + 1\<rparr>)
      else if assertsEnabled env then Inl AssertionFailed
      else Inr (d, a))"

text \<open>
  Modelled from the spec: the builder (\<open>ASBuilder\<close>, not among the sources). A request
  is staged by \<open>AddBLAS\<close> or \<open>AddTLAS\<close>; \<open>BuildBottomLevel\<close> and \<open>BuildTopLevel\<close> flush
  the staged requests together into the command buffer; \<open>IsEmpty\<close> tells whether any
  build is queued.
\<close>

definition AddBLAS :: "BuildRequest \<Rightarrow> Device \<Rightarrow> Device" where
  "AddBLAS r d = d\<lparr>bottomQueue := bottomQueue d @ [r]\<rparr>"

definition AddTLAS :: "BuildRequest \<Rightarrow> Device \<Rightarrow> Device" where
  "AddTLAS r d = d\<lparr>topQueue := topQueue d @ [r]\<rparr>"

definition BuildBottomLevel :: "Device \<Rightarrow> Device" where
  "BuildBottomLevel d =
     (if bottomQueue d = [] then d
      else d\<lparr>vkTrace := vkTrace d @ [EvBuildBottomLevel (bottomQueue d)], bottomQueue := []\<rparr>)"

definition BuildTopLevel :: "Device \<Rightarrow> Device" where
  "BuildTopLevel d =
     (if topQueue d = [] then d
      else d\<lparr>vkTrace := vkTrace d @ [EvBuildTopLevel (topQueue d)], topQueue := []\<rparr>)"

definition IsEmpty :: "Device \<Rightarrow> bool" where
  "IsEmpty d = (bottomQueue d = [] \<and> topQueue d = [])"

text \<open>\<open>ASManager::IsFastBuild\<close> (835-842): fast trace for static, fast build for dynamic.\<close>

definition IsFastBuild :: "32 word \<Rightarrow> bool" where
  "IsFastBuild fl = (fl AND CF_DYNAMIC \<noteq> 0)"

text \<open>
  Modelled from the spec: \<open>Utils::ASBuildMemoryBarrier\<close> and the submission of the
  command buffer with its fence wait (\<open>Utils\<close> and \<open>CommandBufferManager\<close>, not among
  the sources), as events.
\<close>

definition ASBuildMemoryBarrier :: "Device \<Rightarrow> Device" where
  "ASBuildMemoryBarrier d = d\<lparr>vkTrace := vkTrace d @ [EvASBuildMemoryBarrier]\<rparr>"

definition SubmitAndWait :: "Device \<Rightarrow> Device" where
  "SubmitAndWait d = d\<lparr>vkTrace := vkTrace d @ [EvSubmitAndWait]\<rparr>"

section \<open>The geometry collector\<close>

text \<open>
  Modelled from the spec: \<open>VertexCollector\<close> (not among the sources), after its contract
  in the spec. \<open>AddGeometry\<close> appends the geometry to the group matching its
  classification and returns its index, the group's base offset in the geometry metadata
  plus the geometry's position in the group; \<open>Reset\<close> discards all groups;
  \<open>AreGeometriesEmpty\<close> tells whether no group matching the mask holds data;
  \<open>UpdateTransform\<close> changes only the transform of the record with the index;
  \<open>BeginCollecting\<close> and \<open>EndCollecting\<close> open and close the staging memory, of which
  nothing is modelled; \<open>CopyFromStaging\<close> records the copy, with or without barrier.
\<close>

definition filterOfGeometry :: "RgGeometryUploadInfo \<Rightarrow> 32 word" where
  "filterOfGeometry info =
     (case geomType info of
        RG_GEOMETRY_TYPE_STATIC \<Rightarrow> CF_STATIC_NON_MOVABLE
      | RG_GEOMETRY_TYPE_STATIC_MOVABLE \<Rightarrow> CF_STATIC_MOVABLE
      | RG_GEOMETRY_TYPE_DYNAMIC \<Rightarrow> CF_DYNAMIC)
     OR
     (case passThroughType info of
        RG_GEOMETRY_PASS_THROUGH_TYPE_OPAQUE \<Rightarrow> PT_OPAQUE
      | RG_GEOMETRY_PASS_THROUGH_TYPE_ALPHA_TESTED \<Rightarrow> PT_ALPHA_TESTED
      | RG_GEOMETRY_PASS_THROUGH_TYPE_BLEND_ADDITIVE \<Rightarrow> PT_BLEND_ADDITIVE
      | RG_GEOMETRY_PASS_THROUGH_TYPE_BLEND_UNDER \<Rightarrow> PT_BLEND_UNDER)"

definition GetASGeometries :: "VertexCollector \<Rightarrow> 32 word \<Rightarrow> CollectedGeometry list" where
  "GetASGeometries c fl = [g \<leftarrow> vcGeometries c. cgFilter g = fl]"

definition AreGeometriesEmpty :: "VertexCollector \<Rightarrow> 32 word \<Rightarrow> bool" where
  "AreGeometriesEmpty c fls = list_all (\<lambda>g. cgFilter g AND fls = 0) (vcGeometries c)"

definition AddGeometry ::
  "Env \<Rightarrow> RgGeometryUploadInfo \<Rightarrow> nat list \<times> nat list \<times> nat list \<Rightarrow> VertexCollector
     \<Rightarrow> 32 word \<times> VertexCollector" where
  "AddGeometry env info materials c =
     (let fl = filterOfGeometry info;
          geomIndex = VertexCollectorFilterTypeFlagsToOffset env fl
                        * MAX_BOTTOM_LEVEL_GEOMETRIES_COUNT
                      + of_nat (length (GetASGeometries c fl))
      in (geomIndex,
          c\<lparr>vcGeometries := vcGeometries c @
               [\<lparr>cgIndex = geomIndex, cgFilter = fl, cgInfo = info,
                 cgMaterials = materials\<rparr>]\<rparr>))"

definition Reset :: "VertexCollector \<Rightarrow> VertexCollector" where
  "Reset c = c\<lparr>vcGeometries := []\<rparr>"

definition BeginCollecting :: "VertexCollector \<Rightarrow> VertexCollector" where
  "BeginCollecting c = c"

definition EndCollecting :: "VertexCollector \<Rightarrow> VertexCollector" where
  "EndCollecting c = c"

definition UpdateTransform :: "32 word \<Rightarrow> real list \<Rightarrow> VertexCollector \<Rightarrow> VertexCollector" where
  "UpdateTransform geomIndex t c =
     c\<lparr>vcGeometries :=
         map (\<lambda>g. if cgIndex g = geomIndex
                   then g\<lparr>cgInfo := (cgInfo g)\<lparr>geomTransform := t\<rparr>\<rparr> else g)
           (vcGeometries c)\<rparr>"

definition CopyFromStaging :: "bool \<Rightarrow> Device \<Rightarrow> Device" where
  "CopyFromStaging barrier d = d\<lparr>vkTrace := vkTrace d @ [EvCopyFromStaging barrier]\<rparr>"

section \<open>Bottom-level structures\<close>

text \<open>
  \<open>ASManager::SetupBLAS\<close> (364-411): nothing for a filter without geometry; a buffer
  that is missing or too small is destroyed and made anew with the structure; then the
  build is queued.
\<close>

definition SetupBLAS ::
  "Env \<Rightarrow> VertexCollector \<Rightarrow> Device \<Rightarrow> AccelerationStructure
     \<Rightarrow> error + Device \<times> AccelerationStructure" where
  "SetupBLAS env vertCollector d a =
     (let geoms = GetASGeometries vertCollector (as_filter a)
      in if geoms = [] then Inr (d, a)
         else
           let fastTrace = \<not> IsFastBuild (as_filter a);
               update = False;
               buildSize = GetBottomBuildSizes env geoms fastTrace
           in
             (case
                (if \<not> IsInitted (as_buffer a) \<or> GetSize (as_buffer a) < buildSize
                 then
                   (case DestroyAS d a of
                      (d1, a1) \<Rightarrow>
                        (case CreateASBuffer env buildSize d1 a1 of
                           Inl e \<Rightarrow> Inl e
                         | Inr (d2, a2) \<Rightarrow> CreateAccelerationStructure env buildSize d2 a2))
                 else Inr (d, a))
              of
                Inl e \<Rightarrow> Inl e
              | Inr (d3, a3) \<Rightarrow>
                  Inr (AddBLAS \<lparr>brHandle = as_handle a3, brPrimitiveCount = length geoms,
                                brSize = buildSize, brFastTrace = fastTrace,
                                brUpdate = update\<rparr> d3,
                       a3)))"

text \<open>\<open>ASManager::UpdateBLAS\<close> (413-442): the same request, as an update, on the buffer as it is.\<close>

definition UpdateBLAS ::
  "Env \<Rightarrow> VertexCollector \<Rightarrow> Device \<Rightarrow> AccelerationStructure
     \<Rightarrow> error + Device \<times> AccelerationStructure" where
  "UpdateBLAS env vertCollector d a =
     (let geoms = GetASGeometries vertCollector (as_filter a)
      in if geoms = [] then Inr (d, a)
         else
           let fastTrace = \<not> IsFastBuild (as_filter a);
               update = True;
               buildSize = GetBottomBuildSizes env geoms fastTrace
           in if assertsEnabled env
                 \<and> \<not> (IsInitted (as_buffer a) \<and> buildSize \<le> GetSize (as_buffer a))
              then Inl AssertionFailed
              else Inr (AddBLAS \<lparr>brHandle = as_handle a, brPrimitiveCount = length geoms,
                                 brSize = buildSize, brFastTrace = fastTrace,
                                 brUpdate = update\<rparr> d,
                        a))"

text \<open>
  A loop \<open>for (auto &blas : list)\<close> whose body changes the device and the structure it
  visits, and stops the whole call when it fails.
\<close>

fun forEachBlas ::
  "(Device \<Rightarrow> AccelerationStructure \<Rightarrow> error + Device \<times> AccelerationStructure)
     \<Rightarrow> Device \<Rightarrow> AccelerationStructure list
     \<Rightarrow> error + Device \<times> AccelerationStructure list" where
  "forEachBlas body d [] = Inr (d, [])"
| "forEachBlas body d (a # rest) =
     (case body d a of
        Inl e \<Rightarrow> Inl e
      | Inr (d1, a1) \<Rightarrow>
          (case forEachBlas body d1 rest of
             Inl e \<Rightarrow> Inl e
           | Inr (d2, rest') \<Rightarrow> Inr (d2, a1 # rest')))"

section \<open>Submitting geometry\<close>

text \<open>\<open>ASManager::AddStaticGeometry\<close> (446-462) and \<open>ASManager::AddDynamicGeometry\<close> (464-480).\<close>

definition AddStaticGeometry ::
  "Env \<Rightarrow> RgGeometryUploadInfo \<Rightarrow> ASManager \<Rightarrow> error + 32 word \<times> ASManager" where
  "AddStaticGeometry env info m =
     (if geomType info = RG_GEOMETRY_TYPE_STATIC
         \<or> geomType info = RG_GEOMETRY_TYPE_STATIC_MOVABLE
      then
        (case layerMaterials info of
           (m0, m1, m2) \<Rightarrow>
             (case AddGeometry env info
                     (GetMaterialTextures env m0, GetMaterialTextures env m1,
                      GetMaterialTextures env m2)
                     (collectorStatic m) of
                (geomIndex, c) \<Rightarrow> Inr (geomIndex, m\<lparr>collectorStatic := c\<rparr>)))
      else if assertsEnabled env then Inl AssertionFailed
      else Inr (UINT32_MAX, m))"

definition AddDynamicGeometry ::
  "Env \<Rightarrow> RgGeometryUploadInfo \<Rightarrow> nat \<Rightarrow> ASManager \<Rightarrow> error + 32 word \<times> ASManager" where
  "AddDynamicGeometry env info frameIndex m =
     (if geomType info = RG_GEOMETRY_TYPE_DYNAMIC
      then
        (if length (collectorDynamic m) \<le> frameIndex
         then Inl (ArrayOverrun ''collectorDynamic'' frameIndex)
         else
           (case layerMaterials info of
              (m0, m1, m2) \<Rightarrow>
                (case AddGeometry env info
                        (GetMaterialTextures env m0, GetMaterialTextures env m1,
                         GetMaterialTextures env m2)
                        (collectorDynamic m ! frameIndex) of
                   (geomIndex, c) \<Rightarrow>
                     Inr (geomIndex,
                          m\<lparr>collectorDynamic := (collectorDynamic m)[frameIndex := c]\<rparr>))))
      else if assertsEnabled env then Inl AssertionFailed
      else Inr (UINT32_MAX, m))"


definition BeginStaticGeometry :: "ASManager \<Rightarrow> ASManager" where
  "BeginStaticGeometry m = m\<lparr>collectorStatic := BeginCollecting (Reset (collectorStatic m))\<rparr>"

definition BeginDynamicGeometry :: "nat \<Rightarrow> ASManager \<Rightarrow> error + ASManager" where
  "BeginDynamicGeometry frameIndex m =
     (if length (collectorDynamic m) \<le> frameIndex
      then Inl (ArrayOverrun ''collectorDynamic'' frameIndex)
      else Inr (m\<lparr>collectorDynamic := (collectorDynamic m)[frameIndex :=
                     BeginCollecting (Reset (collectorDynamic m ! frameIndex))]\<rparr>))"

text \<open>
  \<open>ASManager::SubmitStaticGeometry\<close> (494-545), after the bodies of its two loops
  (503-512, 528-535). The previous static structures are destroyed first; the skip for an
  empty collector comes after.
\<close>

definition destroyPreviousStatic ::
  "Env \<Rightarrow> 32 word \<Rightarrow> Device \<Rightarrow> AccelerationStructure
     \<Rightarrow> error + Device \<times> AccelerationStructure" where
  "destroyPreviousStatic env staticFlags d staticBlas =
     (if assertsEnabled env \<and> as_filter staticBlas AND CF_DYNAMIC \<noteq> 0
      then Inl AssertionFailed
      else if as_filter staticBlas AND staticFlags \<noteq> 0
      then Inr (DestroyAS d staticBlas)
      else Inr (d, staticBlas))"

definition setupStaticBlas ::
  "Env \<Rightarrow> VertexCollector \<Rightarrow> 32 word \<Rightarrow> Device \<Rightarrow> AccelerationStructure
     \<Rightarrow> error + Device \<times> AccelerationStructure" where
  "setupStaticBlas env c staticFlags d staticBlas =
     (if as_filter staticBlas AND staticFlags \<noteq> 0
      then SetupBLAS env c d staticBlas
      else Inr (d, staticBlas))"

definition SubmitStaticGeometry :: "Env \<Rightarrow> ASManager \<Rightarrow> error + ASManager" where
  "SubmitStaticGeometry env m =
     (let c = EndCollecting (collectorStatic m);
          staticFlags = CF_STATIC_NON_MOVABLE OR CF_STATIC_MOVABLE
      in
        (case forEachBlas (destroyPreviousStatic env staticFlags) (dev m) (allStaticBlas m) of
           Inl e \<Rightarrow> Inl e
         | Inr (d1, blas1) \<Rightarrow>
             if assertsEnabled env \<and> \<not> IsEmpty d1 then Inl AssertionFailed
             else if AreGeometriesEmpty c staticFlags
             then Inr (m\<lparr>collectorStatic := c, dev := d1, allStaticBlas := blas1\<rparr>)
             else
               (case forEachBlas (setupStaticBlas env c staticFlags)
                       (CopyFromStaging True d1) blas1 of
                  Inl e \<Rightarrow> Inl e
                | Inr (d2, blas2) \<Rightarrow>
                    Inr (m\<lparr>collectorStatic := c,
                           dev := SubmitAndWait (BuildBottomLevel d2),
                           allStaticBlas := blas2\<rparr>))))"

text \<open>
  \<open>ASManager::SubmitDynamicGeometry\<close> (554-583), after the body of its loop (571-577).
  The return for an empty collector comes before the loop over the frame's structures, and
  nothing is destroyed on the way.
\<close>

definition recreateDynamicBlas ::
  "Env \<Rightarrow> VertexCollector \<Rightarrow> Device \<Rightarrow> AccelerationStructure
     \<Rightarrow> error + Device \<times> AccelerationStructure" where
  "recreateDynamicBlas env colDyn d dynamicBlas =
     (if assertsEnabled env \<and> \<not> (as_filter dynamicBlas AND CF_DYNAMIC \<noteq> 0)
      then Inl AssertionFailed
      else SetupBLAS env colDyn d dynamicBlas)"

definition SubmitDynamicGeometry :: "Env \<Rightarrow> nat \<Rightarrow> ASManager \<Rightarrow> error + ASManager" where
  "SubmitDynamicGeometry env frameIndex m =
     (if length (collectorDynamic m) \<le> frameIndex
      then Inl (ArrayOverrun ''collectorDynamic'' frameIndex)
      else
        let colDyn = EndCollecting (collectorDynamic m ! frameIndex);
            d1 = CopyFromStaging False (dev m);
            m1 = m\<lparr>collectorDynamic := (collectorDynamic m)[frameIndex := colDyn],
                    dev := d1\<rparr>
        in if assertsEnabled env \<and> \<not> IsEmpty d1 then Inl AssertionFailed
           else if AreGeometriesEmpty colDyn CF_DYNAMIC then Inr m1
           else if length (allDynamicBlas m) \<le> frameIndex
           then Inl (ArrayOverrun ''allDynamicBlas'' frameIndex)
           else
             (case forEachBlas (recreateDynamicBlas env colDyn) d1
                     (allDynamicBlas m ! frameIndex) of
                Inl e \<Rightarrow> Inl e
              | Inr (d2, blas2) \<Rightarrow>
                  Inr (m1\<lparr>dev := BuildBottomLevel d2,
                          allDynamicBlas := (allDynamicBlas m)[frameIndex := blas2]\<rparr>)))"

text \<open>
  \<open>ASManager::UpdateStaticMovableTransform\<close> (585-588) and
  \<open>ASManager::ResubmitStaticMovable\<close> (590-619), after the body of its loop (602-613).
\<close>

definition UpdateStaticMovableTransform :: "32 word \<Rightarrow> real list \<Rightarrow> ASManager \<Rightarrow> ASManager" where
  "UpdateStaticMovableTransform geomIndex t m =
     m\<lparr>collectorStatic := UpdateTransform geomIndex t (collectorStatic m)\<rparr>"

definition updateMovableBlas ::
  "Env \<Rightarrow> VertexCollector \<Rightarrow> Device \<Rightarrow> AccelerationStructure
     \<Rightarrow> error + Device \<times> AccelerationStructure" where
  "updateMovableBlas env c d blas =
     (if assertsEnabled env \<and> as_filter blas AND CF_DYNAMIC \<noteq> 0
      then Inl AssertionFailed
      else if as_filter blas AND CF_STATIC_MOVABLE \<noteq> 0
      then UpdateBLAS env c d blas
      else Inr (d, blas))"

definition ResubmitStaticMovable :: "Env \<Rightarrow> ASManager \<Rightarrow> error + ASManager" where
  "ResubmitStaticMovable env m =
     (if AreGeometriesEmpty (collectorStatic m) CF_STATIC_MOVABLE then Inr m
      else if assertsEnabled env \<and> \<not> IsEmpty (dev m) then Inl AssertionFailed
      else
        (case forEachBlas (updateMovableBlas env (collectorStatic m)) (dev m)
                (allStaticBlas m) of
           Inl e \<Rightarrow> Inl e
         | Inr (d1, blas1) \<Rightarrow>
             Inr (m\<lparr>dev := ASBuildMemoryBarrier (BuildBottomLevel d1),
                    allStaticBlas := blas1\<rparr>)))"

section \<open>Construction\<close>

text \<open>
  The constructor (28-114): one bottom-level structure per filter \<open>cf | pt\<close>, the dynamic
  ones once per frame in flight, no handle and no buffer yet; the collectors are empty;
  each frame's instance buffer has room for \<open>MAX_TOP_LEVEL_INSTANCE_COUNT\<close> instances.
\<close>

definition newAS :: "32 word \<Rightarrow> AccelerationStructure" where
  "newAS fl = \<lparr>as_handle = VK_NULL_HANDLE, as_buffer = emptyBuffer, as_filter = fl\<rparr>"

definition allFilters :: "32 word list" where
  "allFilters =
     concat (map (\<lambda>cf. map (\<lambda>pt. cf OR pt) VertexCollectorFilterGroup_PassThrough)
               VertexCollectorFilterGroup_ChangeFrequency)"

definition instanceBufferCapacity :: nat where
  "instanceBufferCapacity = MAX_TOP_LEVEL_INSTANCE_COUNT"

definition newDevice :: Device where
  "newDevice = \<lparr>handleCount = 0, bottomQueue = [], topQueue = [], vkTrace = []\<rparr>"

definition newASManager :: ASManager where
  "newASManager =
     \<lparr>dev = newDevice,
      allStaticBlas = map newAS [fl \<leftarrow> allFilters. fl AND CF_DYNAMIC = 0],
      allDynamicBlas =
        replicate MAX_FRAMES_IN_FLIGHT (map newAS [fl \<leftarrow> allFilters. fl AND CF_DYNAMIC \<noteq> 0]),
      tlas = replicate MAX_FRAMES_IN_FLIGHT (newAS 0),
      collectorStatic = \<lparr>vcGeometries = []\<rparr>,
      collectorDynamic = replicate MAX_FRAMES_IN_FLIGHT \<lparr>vcGeometries = []\<rparr>,
      instanceBuffers = replicate MAX_FRAMES_IN_FLIGHT []\<rparr>"

section \<open>TLAS instance assembly\<close>

text \<open>The identity rotation and zero translation written by \<open>SetupTLASInstance\<close>.\<close>

definition identityTransform :: "real list" where
  "identityTransform = [1, 0, 0, 0,  0, 1, 0, 0,  0, 0, 1, 0]"

text \<open>
  \<open>ASManager::SetupTLASInstance\<close> (ASManager.cpp, 621-689). The instance is passed by
  reference: the function returns whether it was set up, and the instance as it leaves it.
  The record offset is assigned in an if-chain with no final else.
\<close>

definition SetupTLASInstance ::
  "Env \<Rightarrow> AccelerationStructure \<Rightarrow> VkAccelerationStructureInstanceKHR
     \<Rightarrow> bool \<times> VkAccelerationStructureInstanceKHR" where
  "SetupTLASInstance env a instance =
     (if as_handle a = VK_NULL_HANDLE then (False, instance)
      else
        let fl = as_filter a;
            i1 = instance\<lparr>accelerationStructureReference := GetASAddress env (as_handle a),
                          transform := identityTransform\<rparr>;
            i2 = (if fl AND CF_DYNAMIC \<noteq> 0
                  then i1\<lparr>instanceCustomIndex := ucast INSTANCE_CUSTOM_INDEX_FLAG_DYNAMIC\<rparr>
                  else i1\<lparr>instanceCustomIndex := 0\<rparr>);
            i3 = (if fl AND (PT_BLEND_ADDITIVE OR PT_BLEND_UNDER) \<noteq> 0
                  then i2\<lparr>instance_mask := ucast (NOT INSTANCE_MASK_HAS_SHADOWS)\<rparr>
                  else i2\<lparr>instance_mask := ucast INSTANCE_MASK_HAS_SHADOWS\<rparr>);
            i4 = (if fl AND PT_OPAQUE \<noteq> 0
                  then i3\<lparr>instanceShaderBindingTableRecordOffset :=
                             ucast SBT_INDEX_HITGROUP_FULLY_OPAQUE,
                          flags := ucast (VK_GEOMETRY_INSTANCE_FORCE_OPAQUE_BIT_KHR
                             OR VK_GEOMETRY_INSTANCE_TRIANGLE_FACING_CULL_DISABLE_BIT_KHR)\<rparr>
                  else
                    (let i3' =
                       (if fl AND PT_ALPHA_TESTED \<noteq> 0
                        then i3\<lparr>instanceShaderBindingTableRecordOffset :=
                                   ucast SBT_INDEX_HITGROUP_ALPHA_TESTED\<rparr>
                        else if fl AND PT_BLEND_ADDITIVE \<noteq> 0
                        then i3\<lparr>instanceShaderBindingTableRecordOffset :=
                                   ucast SBT_INDEX_HITGROUP_BLEND_ADDITIVE\<rparr>
                        else if fl AND PT_BLEND_UNDER \<noteq> 0
                        then i3\<lparr>instanceShaderBindingTableRecordOffset :=
                                   ucast SBT_INDEX_HITGROUP_BLEND_UNDER\<rparr>
                        else i3)
                     in i3'\<lparr>flags := ucast (VK_GEOMETRY_INSTANCE_FORCE_NO_OPAQUE_BIT_KHR
                             OR VK_GEOMETRY_INSTANCE_TRIANGLE_FACING_CULL_DISABLE_BIT_KHR)\<rparr>))
        in (True, i4))"


text \<open>
  The locals of \<open>TryBuildTLAS\<close> (696-702): the count, the zero-initialised
  \<open>instances[32]\<close>, and the uninitialised
  \<open>int32_t instanceGeomInfoOffset[MAX_TOP_LEVEL_INSTANCE_COUNT * 4]\<close>.
\<close>

record TlasLocals =
  instanceCount :: nat
  instances :: "VkAccelerationStructureInstanceKHR list"
  instanceGeomInfoOffset :: "32 word list"

definition initialLocals :: "Env \<Rightarrow> TlasLocals" where
  "initialLocals env =
     \<lparr>instanceCount = 0,
      instances = replicate 32 zeroInstance,
      instanceGeomInfoOffset = map (stackGarbage env) [0 ..< MAX_TOP_LEVEL_INSTANCE_COUNT * 4]\<rparr>"

text \<open>
  The body of the two loops of \<open>TryBuildTLAS\<close> (705-733); \<open>dynamicLoop\<close> tells which
  assertion on the filter stands at its head. \<open>SetupTLASInstance\<close> is given
  \<open>instances[instanceCount]\<close> by reference, and writes to it when the handle is valid.
\<close>

definition addInstance ::
  "Env \<Rightarrow> bool \<Rightarrow> AccelerationStructure \<Rightarrow> TlasLocals \<Rightarrow> error + TlasLocals" where
  "addInstance env dynamicLoop blas l =
     (if assertsEnabled env \<and> ((as_filter blas AND CF_DYNAMIC \<noteq> 0) \<noteq> dynamicLoop)
      then Inl AssertionFailed
      else if as_handle blas \<noteq> VK_NULL_HANDLE \<and> length (instances l) \<le> instanceCount l
      then Inl (ArrayOverrun ''instances'' (instanceCount l))
      else
        (case SetupTLASInstance env blas (instances l ! instanceCount l) of
          (isAdded, inst) \<Rightarrow>
            if isAdded
            then
              (if length (instanceGeomInfoOffset l) \<le> instanceCount l * 4
               then Inl (ArrayOverrun ''instanceGeomInfoOffset'' (instanceCount l * 4))
               else
                 let l' = l\<lparr>instances := (instances l)[instanceCount l := inst],
                             instanceGeomInfoOffset :=
                               (instanceGeomInfoOffset l)[instanceCount l * 4 :=
                                  VertexCollectorFilterTypeFlagsToOffset env (as_filter blas)
                                    * MAX_BOTTOM_LEVEL_GEOMETRIES_COUNT],
                             instanceCount := instanceCount l + 1\<rparr>
                 in if assertsEnabled env
                       \<and> \<not> instanceCount l' < MAX_TOP_LEVEL_INSTANCE_COUNT
                    then Inl AssertionFailed
                    else Inr l')
            else Inr l))"

fun assembleInstances ::
  "Env \<Rightarrow> bool \<Rightarrow> AccelerationStructure list \<Rightarrow> TlasLocals \<Rightarrow> error + TlasLocals" where
  "assembleInstances env dynamicLoop [] l = Inr l"
| "assembleInstances env dynamicLoop (blas # rest) l =
     (case addInstance env dynamicLoop blas l of
        Inl e \<Rightarrow> Inl e
      | Inr l' \<Rightarrow> assembleInstances env dynamicLoop rest l')"

text \<open>
  The instance assembly of \<open>TryBuildTLAS\<close>: the static structures first, then those of
  the frame.
\<close>

definition assembleTLAS :: "Env \<Rightarrow> nat \<Rightarrow> ASManager \<Rightarrow> error + TlasLocals" where
  "assembleTLAS env frameIndex m =
     (case assembleInstances env False (allStaticBlas m) (initialLocals env) of
        Inl e \<Rightarrow> Inl e
      | Inr l \<Rightarrow>
          if length (allDynamicBlas m) \<le> frameIndex
          then Inl (ArrayOverrun ''allDynamicBlas'' frameIndex)
          else assembleInstances env True (allDynamicBlas m ! frameIndex) l)"


text \<open>
  The \<open>memcpy\<close> of \<open>n\<close> ints from the local table to the uniform's (742): the first \<open>n\<close>
  ints of the target are replaced by the first \<open>n\<close> of the source.
\<close>

definition memcpy_ints :: "32 word list \<Rightarrow> 32 word list \<Rightarrow> nat \<Rightarrow> 32 word list" where
  "memcpy_ints dst src n = take n src @ drop n dst"

text \<open>
  \<open>ASManager::TryBuildTLAS\<close> (691-798): whether a top-level structure was built, the
  uniform and the manager as the call leaves them. The descriptor update at its end writes
  nothing that is modelled here.
\<close>

definition TryBuildTLAS ::
  "Env \<Rightarrow> nat \<Rightarrow> GlobalUniform \<Rightarrow> ASManager \<Rightarrow> error + bool \<times> GlobalUniform \<times> ASManager" where
  "TryBuildTLAS env frameIndex uniform m =
     (case assembleTLAS env frameIndex m of
        Inl e \<Rightarrow> Inl e
      | Inr l \<Rightarrow>
          if instanceCount l = 0 then Inr (False, uniform, m)
          else if length (uniformInstanceGeomInfoOffset uniform) < instanceCount l * 4
          then Inl (ArrayOverrun ''uniform.instanceGeomInfoOffset''
                      (length (uniformInstanceGeomInfoOffset uniform)))
          else if length (instanceBuffers m) \<le> frameIndex
          then Inl (ArrayOverrun ''instanceBuffers'' frameIndex)
          else if length (tlas m) \<le> frameIndex
          then Inl (ArrayOverrun ''tlas'' frameIndex)
          else if instanceBufferCapacity < instanceCount l
          then Inl (ArrayOverrun ''instanceBuffer'' instanceBufferCapacity)
          else
            let uniform' = uniform\<lparr>uniformInstanceGeomInfoOffset :=
                  memcpy_ints (uniformInstanceGeomInfoOffset uniform)
                    (instanceGeomInfoOffset l) (instanceCount l * 4)\<rparr>;
                buffers' = (instanceBuffers m)[frameIndex :=
                  take (instanceCount l) (instances l)];
                curTlas = tlas m ! frameIndex;
                buildSize = GetTopBuildSizes env (instanceCount l)
            in
              (case
                 (if GetSize (as_buffer curTlas) < buildSize
                  then
                    (case DestroyAS (dev m) curTlas of
                       (d1, t1) \<Rightarrow>
                         (case CreateASBuffer env buildSize d1 t1 of
                            Inl e \<Rightarrow> Inl e
                          | Inr (d2, t2) \<Rightarrow> CreateAccelerationStructure env buildSize d2 t2))
                  else Inr (dev m, curTlas))
               of
                 Inl e \<Rightarrow> Inl e
               | Inr (d3, t3) \<Rightarrow>
                   if assertsEnabled env \<and> \<not> IsEmpty d3 then Inl AssertionFailed
                   else
                     let d4 = ASBuildMemoryBarrier (BuildTopLevel
                           (AddTLAS \<lparr>brHandle = as_handle t3,
                                     brPrimitiveCount = instanceCount l,
                                     brSize = buildSize, brFastTrace = True,
                                     brUpdate = False\<rparr> d3))
                     in Inr (True, uniform',
                             m\<lparr>dev := d4, instanceBuffers := buffers',
                               tlas := (tlas m)[frameIndex := t3]\<rparr>)))"


section \<open>The shader side of the offset table\<close>

text \<open>
  \<open>getGeometryIndex\<close> (VertexData.inl, 367-371):
  \<open>globalUniform.instanceGeomInfoOffset[instanceID / 4][instanceID % 4] + localGeometryIndex\<close>.
  Component \<open>c\<close> of vector \<open>v\<close> is int \<open>4 * v + c\<close> of the uniform's table; a vector past
  the end of the array has no value.
\<close>

definition getGeometryIndex :: "GlobalUniform \<Rightarrow> nat \<Rightarrow> 32 word \<Rightarrow> 32 word option" where
  "getGeometryIndex globalUniform instanceID localGeometryIndex =
     (if instanceID div 4 < UNIFORM_OFFSET_VEC4_COUNT
         \<and> 4 * (instanceID div 4) + instanceID mod 4
             < length (uniformInstanceGeomInfoOffset globalUniform)
      then Some (uniformInstanceGeomInfoOffset globalUniform
                   ! (4 * (instanceID div 4) + instanceID mod 4) + localGeometryIndex)
      else None)"


section \<open>The shader side of a triangle fetch\<close>

text \<open>
  The shaders compute on floats. Nothing below depends on how: a vector is three floats of
  any type \<open>'f\<close>, a matrix is of any type \<open>'m\<close>, and the products
  \<open>(M * vec4(p, 1.0)).xyz\<close>, \<open>mat3(M) * n\<close> and \<open>positions * baryCoords\<close> are
  functions given with the buffers. A runtime-sized buffer is a function of the index.
\<close>

type_synonym 'f vec3 = "'f \<times> 'f \<times> 'f"

type_synonym 'f mat3 = "'f vec3 \<times> 'f vec3 \<times> 'f vec3"

definition map3 :: "('a \<Rightarrow> 'b) \<Rightarrow> 'a \<times> 'a \<times> 'a \<Rightarrow> 'b \<times> 'b \<times> 'b" where
  "map3 f t = (case t of (a, b, c) \<Rightarrow> (f a, f b, f c))"

text \<open>\<open>struct ShGeometryInstance\<close>: the fields the position fetch reads.\<close>

record 'm ShGeometryInstance =
  model :: 'm
  prevModel :: 'm
  giFlags :: "32 word"
  baseVertexIndex :: "32 word"
  baseIndexIndex :: "32 word"
  prevBaseVertexIndex :: "32 word"
  prevBaseIndexIndex :: "32 word"

record ('f, 'm) ShaderData =
  globalUniform :: GlobalUniform
  globalUniformPrev :: GlobalUniform
  positionsStride :: "32 word"
  normalsStride :: "32 word"
  staticPositions :: "32 word \<Rightarrow> 'f"
  staticNormals :: "32 word \<Rightarrow> 'f"
  dynamicPositions :: "32 word \<Rightarrow> 'f"
  dynamicNormals :: "32 word \<Rightarrow> 'f"
  prevDynamicPositions :: "32 word \<Rightarrow> 'f"
  staticIndices :: "32 word \<Rightarrow> 32 word"
  dynamicIndices :: "32 word \<Rightarrow> 32 word"
  prevDynamicIndices :: "32 word \<Rightarrow> 32 word"
  geometryInstances :: "32 word \<Rightarrow> 'm ShGeometryInstance"
  geomIndexPrevToCur :: "32 word \<Rightarrow> 32 word"
  mulPoint :: "'m \<Rightarrow> 'f vec3 \<Rightarrow> 'f vec3"
  mulDirection :: "'m \<Rightarrow> 'f vec3 \<Rightarrow> 'f vec3"
  mulBary :: "'f mat3 \<Rightarrow> 'f \<times> 'f \<Rightarrow> 'f vec3"

text \<open>The vertex getters (112-167, 293-299): three consecutive floats at \<open>index * stride\<close>.\<close>

definition getVec3 :: "(32 word \<Rightarrow> 'f) \<Rightarrow> 32 word \<Rightarrow> 32 word \<Rightarrow> 'f vec3" where
  "getVec3 buf stride index =
     (buf (index * stride + 0), buf (index * stride + 1), buf (index * stride + 2))"

definition getStaticVerticesPositions :: "('f, 'm) ShaderData \<Rightarrow> 32 word \<Rightarrow> 'f vec3" where
  "getStaticVerticesPositions sd index = getVec3 (staticPositions sd) (positionsStride sd) index"

definition getStaticVerticesNormals :: "('f, 'm) ShaderData \<Rightarrow> 32 word \<Rightarrow> 'f vec3" where
  "getStaticVerticesNormals sd index = getVec3 (staticNormals sd) (normalsStride sd) index"

definition getDynamicVerticesPositions :: "('f, 'm) ShaderData \<Rightarrow> 32 word \<Rightarrow> 'f vec3" where
  "getDynamicVerticesPositions sd index = getVec3 (dynamicPositions sd) (positionsStride sd) index"

definition getDynamicVerticesNormals :: "('f, 'm) ShaderData \<Rightarrow> 32 word \<Rightarrow> 'f vec3" where
  "getDynamicVerticesNormals sd index = getVec3 (dynamicNormals sd) (normalsStride sd) index"

definition getPrevDynamicVerticesPositions :: "('f, 'm) ShaderData \<Rightarrow> 32 word \<Rightarrow> 'f vec3" where
  "getPrevDynamicVerticesPositions sd index =
     getVec3 (prevDynamicPositions sd) (positionsStride sd) index"

text \<open>
  \<open>getVertIndicesStatic\<close>, \<open>getVertIndicesDynamic\<close> and \<open>getPrevVertIndicesDynamic\<close>
  (230-282) differ in the index buffer they read.
\<close>

definition getVertIndices ::
  "(32 word \<Rightarrow> 32 word) \<Rightarrow> 32 word \<Rightarrow> 32 word \<Rightarrow> 32 word \<Rightarrow> 32 word \<times> 32 word \<times> 32 word" where
  "getVertIndices indices baseVertex baseIndex primitiveId =
     (if baseIndex \<noteq> UINT32_MAX
      then (baseVertex + indices (baseIndex + primitiveId * 3 + 0),
            baseVertex + indices (baseIndex + primitiveId * 3 + 1),
            baseVertex + indices (baseIndex + primitiveId * 3 + 2))
      else (baseVertex + primitiveId * 3 + 0,
            baseVertex + primitiveId * 3 + 1,
            baseVertex + primitiveId * 3 + 2))"

definition getVertIndicesStatic ::
  "('f, 'm) ShaderData \<Rightarrow> 32 word \<Rightarrow> 32 word \<Rightarrow> 32 word \<Rightarrow> 32 word \<times> 32 word \<times> 32 word" where
  "getVertIndicesStatic sd = getVertIndices (staticIndices sd)"

definition getVertIndicesDynamic ::
  "('f, 'm) ShaderData \<Rightarrow> 32 word \<Rightarrow> 32 word \<Rightarrow> 32 word \<Rightarrow> 32 word \<times> 32 word \<times> 32 word" where
  "getVertIndicesDynamic sd = getVertIndices (dynamicIndices sd)"

definition getPrevVertIndicesDynamic ::
  "('f, 'm) ShaderData \<Rightarrow> 32 word \<Rightarrow> 32 word \<Rightarrow> 32 word \<Rightarrow> 32 word \<times> 32 word \<times> 32 word" where
  "getPrevVertIndicesDynamic sd = getVertIndices (prevDynamicIndices sd)"

text \<open>
  \<open>struct ShTriangle\<close>: positions, previous positions and normals; the texture
  coordinates, the tangent and the material fields are not modelled.
\<close>

record 'f ShTriangle =
  trPositions :: "'f mat3"
  trPrevPositions :: "'f mat3"
  trNormals :: "'f mat3"

text \<open>
  \<open>getTriangle\<close> (398-526). \<open>getTriangleStatic\<close> and \<open>getTriangleDynamic\<close> give the
  local positions and normals of the three vertices. The fetch has no value when the
  instance is past the end of the offset table.
\<close>

definition getTriangle ::
  "('f, 'm) ShaderData \<Rightarrow> nat \<Rightarrow> 32 word \<Rightarrow> 32 word \<Rightarrow> 32 word \<Rightarrow> 'f ShTriangle option" where
  "getTriangle sd instanceID customIndex localGeometryIndex primitiveId =
     (case getGeometryIndex (globalUniform sd) instanceID localGeometryIndex of
        None \<Rightarrow> None
      | Some globalGeometryIndex \<Rightarrow>
          let inst = geometryInstances sd globalGeometryIndex;
              isDynamic = (customIndex AND INSTANCE_CUSTOM_INDEX_FLAG_DYNAMIC
                             = INSTANCE_CUSTOM_INDEX_FLAG_DYNAMIC)
          in
            if isDynamic
            then
              let vertIndices = getVertIndicesDynamic sd (baseVertexIndex inst)
                                  (baseIndexIndex inst) primitiveId;
                  localPositions = map3 (getDynamicVerticesPositions sd) vertIndices;
                  localNormals = map3 (getDynamicVerticesNormals sd) vertIndices;
                  positions = map3 (mulPoint sd (model inst)) localPositions;
                  hasPrevInfo = (prevBaseVertexIndex inst \<noteq> UINT32_MAX);
                  prevPositions =
                    (if hasPrevInfo
                     then
                       let prevVertIndices = getPrevVertIndicesDynamic sd
                             (prevBaseVertexIndex inst) (prevBaseIndexIndex inst) primitiveId;
                           prevLocalPos = map3 (getPrevDynamicVerticesPositions sd) prevVertIndices
                       in map3 (mulPoint sd (prevModel inst)) prevLocalPos
                     else positions)
              in Some \<lparr>trPositions = positions, trPrevPositions = prevPositions,
                        trNormals = map3 (mulDirection sd (model inst)) localNormals\<rparr>
            else
              let vertIndices = getVertIndicesStatic sd (baseVertexIndex inst)
                                  (baseIndexIndex inst) primitiveId;
                  prevLocalPos = map3 (getStaticVerticesPositions sd) vertIndices;
                  localNormals = map3 (getStaticVerticesNormals sd) vertIndices;
                  positions = map3 (mulPoint sd (model inst)) prevLocalPos;
                  isMovable = (giFlags inst AND GEOM_INST_FLAG_IS_MOVABLE \<noteq> 0);
                  hasPrevInfo = (prevBaseVertexIndex inst \<noteq> UINT32_MAX);
                  prevPositions =
                    (if isMovable \<and> hasPrevInfo
                     then map3 (mulPoint sd (prevModel inst)) prevLocalPos
                     else positions)
              in Some \<lparr>trPositions = positions, trPrevPositions = prevPositions,
                        trNormals = map3 (mulDirection sd (model inst)) localNormals\<rparr>)"

text \<open>
  \<open>getTriangle_PositionAndNormal\<close> (528-611): position, previous position, normal and
  previous normal at the barycentric coordinates.
\<close>

definition getTriangle_PositionAndNormal ::
  "('f, 'm) ShaderData \<Rightarrow> nat \<Rightarrow> 32 word \<Rightarrow> 32 word \<Rightarrow> 32 word \<Rightarrow> 'f \<times> 'f
     \<Rightarrow> ('f vec3 \<times> 'f vec3 \<times> 'f vec3 \<times> 'f vec3) option" where
  "getTriangle_PositionAndNormal sd instanceID customIndex localGeometryIndex
       primitiveId bary =
     (case getGeometryIndex (globalUniform sd) instanceID localGeometryIndex of
        None \<Rightarrow> None
      | Some globalGeometryIndex \<Rightarrow>
          let inst = geometryInstances sd globalGeometryIndex;
              isDynamic = (customIndex AND INSTANCE_CUSTOM_INDEX_FLAG_DYNAMIC
                             = INSTANCE_CUSTOM_INDEX_FLAG_DYNAMIC)
          in
            if isDynamic
            then
              let vertIndices = getVertIndicesDynamic sd (baseVertexIndex inst)
                                  (baseIndexIndex inst) primitiveId;
                  position = mulPoint sd (model inst)
                    (mulBary sd (map3 (getDynamicVerticesPositions sd) vertIndices) bary);
                  localNormal = mulBary sd (map3 (getDynamicVerticesNormals sd) vertIndices) bary;
                  normal = mulDirection sd (model inst) localNormal;
                  hasPrevInfo = (prevBaseVertexIndex inst \<noteq> UINT32_MAX)
              in
                if hasPrevInfo
                then
                  let prevVertIndices = getPrevVertIndicesDynamic sd
                        (prevBaseVertexIndex inst) (prevBaseIndexIndex inst) primitiveId;
                      position_Prev = mulPoint sd (prevModel inst)
                        (mulBary sd (map3 (getPrevDynamicVerticesPositions sd) prevVertIndices) bary)
                  in Some (position, position_Prev, normal,
                           mulDirection sd (prevModel inst) localNormal)
                else Some (position, position, normal, normal)
            else
              let vertIndices = getVertIndicesStatic sd (baseVertexIndex inst)
                                  (baseIndexIndex inst) primitiveId;
                  localPosition = mulBary sd (map3 (getStaticVerticesPositions sd) vertIndices) bary;
                  localNormal = mulBary sd (map3 (getStaticVerticesNormals sd) vertIndices) bary;
                  position = mulPoint sd (model inst) localPosition;
                  normal = mulDirection sd (model inst) localNormal;
                  isMovable = (giFlags inst AND GEOM_INST_FLAG_IS_MOVABLE \<noteq> 0);
                  hasPrevInfo = (prevBaseVertexIndex inst \<noteq> UINT32_MAX)
              in
                if isMovable \<and> hasPrevInfo
                then Some (position, mulPoint sd (prevModel inst) localPosition, normal,
                           mulDirection sd (prevModel inst) localNormal)
                else Some (position, position, normal, normal))"

text \<open>
  \<open>getCurrentGeometryIndexByPrev\<close> (373-383): whether the previous frame's geometry has
  a match in the current frame, and the index read from the map (the out parameter).
\<close>

definition getCurrentGeometryIndexByPrev ::
  "('f, 'm) ShaderData \<Rightarrow> nat \<Rightarrow> 32 word \<Rightarrow> (bool \<times> 32 word) option" where
  "getCurrentGeometryIndexByPrev sd prevInstanceID prevLocalGeometryIndex =
     (case getGeometryIndex (globalUniformPrev sd) prevInstanceID prevLocalGeometryIndex of
        None \<Rightarrow> None
      | Some prevFrameGeomIndex \<Rightarrow>
          let curFrameGlobalGeomIndex = geomIndexPrevToCur sd prevFrameGeomIndex
          in Some (curFrameGlobalGeomIndex \<noteq> UINT32_MAX, curFrameGlobalGeomIndex))"

text \<open>
  When a fetch uses data of the previous frame, in the words of the shader's comments:
  dynamic geometry when previous info exists, static geometry when it is movable and
  previous info exists; previous info exists when the previous base vertex index is not
  \<open>UINT32_MAX\<close>. And the local positions it then transforms by the previous model
  matrix: the previous frame's vertices for dynamic geometry, the unchanged vertices for
  static geometry. The current local positions and normals are those of the frame's own
  vertices.
\<close>

definition isDynamicInstance :: "32 word \<Rightarrow> bool" where
  "isDynamicInstance customIndex =
     (customIndex AND INSTANCE_CUSTOM_INDEX_FLAG_DYNAMIC = INSTANCE_CUSTOM_INDEX_FLAG_DYNAMIC)"

definition usesPreviousFrame :: "('f, 'm) ShaderData \<Rightarrow> 32 word \<Rightarrow> 32 word \<Rightarrow> bool" where
  "usesPreviousFrame sd globalGeometryIndex customIndex =
     (prevBaseVertexIndex (geometryInstances sd globalGeometryIndex) \<noteq> UINT32_MAX
      \<and> (isDynamicInstance customIndex
           \<or> giFlags (geometryInstances sd globalGeometryIndex) AND GEOM_INST_FLAG_IS_MOVABLE \<noteq> 0))"

definition previousLocalPositions ::
  "('f, 'm) ShaderData \<Rightarrow> 32 word \<Rightarrow> 32 word \<Rightarrow> 32 word \<Rightarrow> 'f mat3" where
  "previousLocalPositions sd globalGeometryIndex customIndex primitiveId =
     (let inst = geometryInstances sd globalGeometryIndex
      in if isDynamicInstance customIndex
         then map3 (getPrevDynamicVerticesPositions sd)
                (getPrevVertIndicesDynamic sd (prevBaseVertexIndex inst)
                   (prevBaseIndexIndex inst) primitiveId)
         else map3 (getStaticVerticesPositions sd)
                (getVertIndicesStatic sd (baseVertexIndex inst) (baseIndexIndex inst)
                   primitiveId))"

definition currentLocalPositions ::
  "('f, 'm) ShaderData \<Rightarrow> 32 word \<Rightarrow> 32 word \<Rightarrow> 32 word \<Rightarrow> 'f mat3" where
  "currentLocalPositions sd globalGeometryIndex customIndex primitiveId =
     (let inst = geometryInstances sd globalGeometryIndex
      in if isDynamicInstance customIndex
         then map3 (getDynamicVerticesPositions sd)
                (getVertIndicesDynamic sd (baseVertexIndex inst) (baseIndexIndex inst)
                   primitiveId)
         else map3 (getStaticVerticesPositions sd)
                (getVertIndicesStatic sd (baseVertexIndex inst) (baseIndexIndex inst)
                   primitiveId))"

definition localNormals ::
  "('f, 'm) ShaderData \<Rightarrow> 32 word \<Rightarrow> 32 word \<Rightarrow> 32 word \<Rightarrow> 'f mat3" where
  "localNormals sd globalGeometryIndex customIndex primitiveId =
     (let inst = geometryInstances sd globalGeometryIndex
      in if isDynamicInstance customIndex
         then map3 (getDynamicVerticesNormals sd)
                (getVertIndicesDynamic sd (baseVertexIndex inst) (baseIndexIndex inst)
                   primitiveId)
         else map3 (getStaticVerticesNormals sd)
                (getVertIndicesStatic sd (baseVertexIndex inst) (baseIndexIndex inst)
                   primitiveId))"

section \<open>Sequences of calls\<close>

text \<open>One call after another: the second is made only if the first returned.\<close>

definition thenE :: "error + 'a \<Rightarrow> ('a \<Rightarrow> error + 'b) \<Rightarrow> error + 'b" where
  "thenE r f = (case r of Inl e \<Rightarrow> Inl e | Inr x \<Rightarrow> f x)"

section \<open>The requests of a movable update\<close>

text \<open>The request \<open>UpdateBLAS\<close> queues for a structure whose filter has geometry.\<close>

definition updateRequest :: "Env \<Rightarrow> VertexCollector \<Rightarrow> AccelerationStructure \<Rightarrow> BuildRequest" where
  "updateRequest env c b =
     \<lparr>brHandle = as_handle b,
      brPrimitiveCount = length (GetASGeometries c (as_filter b)),
      brSize = GetBottomBuildSizes env (GetASGeometries c (as_filter b))
                 (\<not> IsFastBuild (as_filter b)),
      brFastTrace = (\<not> IsFastBuild (as_filter b)), brUpdate = True\<rparr>"

text \<open>
  The structures \<open>ResubmitStaticMovable\<close> updates: those of the static list whose filter is
  static-movable and has geometry in the collector.
\<close>

definition movableWithGeometry ::
  "VertexCollector \<Rightarrow> AccelerationStructure list \<Rightarrow> AccelerationStructure list" where
  "movableWithGeometry c xs =
     [b \<leftarrow> xs. as_filter b AND CF_STATIC_MOVABLE \<noteq> 0 \<and> GetASGeometries c (as_filter b) \<noteq> []]"

section \<open>Structures and the geometry of their filter\<close>

text \<open>
  A structure is not stale with respect to a collector when its filter is outside the
  given classes, or it has no handle, or the collector holds geometry of its filter.
\<close>

definition noStaleStructure :: "VertexCollector \<Rightarrow> 32 word \<Rightarrow> AccelerationStructure \<Rightarrow> bool" where
  "noStaleStructure c fls a =
     (as_filter a AND fls = 0 \<or> as_handle a = VK_NULL_HANDLE
      \<or> GetASGeometries c (as_filter a) \<noteq> [])"

section \<open>What destroying a structure does\<close>

text \<open>
  The calls \<open>DestroyAS\<close> makes on a structure, the buffer first, and the structure as it
  leaves it: no handle, no buffer, the same filter.
\<close>

definition destroyEvents :: "AccelerationStructure \<Rightarrow> Event list" where
  "destroyEvents a =
     (if IsInitted (as_buffer a) then [EvDestroyBuffer (bufHandle (as_buffer a))] else [])
     @ (if as_handle a \<noteq> VK_NULL_HANDLE then [EvDestroyAS (as_handle a)] else [])"

definition destroyedAS :: "AccelerationStructure \<Rightarrow> AccelerationStructure" where
  "destroyedAS a = a\<lparr>as_handle := VK_NULL_HANDLE, as_buffer := emptyBuffer\<rparr>"

section \<open>The states of the manager\<close>



section \<open>Example inputs\<close>

text \<open>
  An environment in which the device never fails: \<open>dbg\<close> tells whether \<open>assert\<close> is
  compiled in, \<open>off\<close> is \<open>VertexCollectorFilterTypeFlagsToOffset\<close>, and \<open>g\<close> is what an
  uninitialised local array holds.
\<close>

definition exampleEnv :: "bool \<Rightarrow> (32 word \<Rightarrow> 32 word) \<Rightarrow> (nat \<Rightarrow> 32 word) \<Rightarrow> Env" where
  "exampleEnv dbg off g =
     \<lparr>assertsEnabled = dbg,
      VertexCollectorFilterTypeFlagsToOffset = off,
      GetMaterialTextures = (\<lambda>material. [material, 0, 0]),
      GetBottomBuildSizes = (\<lambda>geoms fastTrace. 64 * length geoms),
      GetTopBuildSizes = (\<lambda>n. 16 * n),
      deviceCanAllocate = (\<lambda>sz. True),
      deviceCanCreateAS = (\<lambda>sz. True),
      GetASAddress = (\<lambda>h. of_nat h),
      stackGarbage = g\<rparr>"

definition exampleUniform :: GlobalUniform where
  "exampleUniform = \<lparr>uniformInstanceGeomInfoOffset = replicate 48 0\<rparr>"

text \<open>A structure that was built: its handle, its buffer's handle and size, its filter.\<close>

definition builtAS :: "nat \<Rightarrow> nat \<Rightarrow> nat \<Rightarrow> 32 word \<Rightarrow> AccelerationStructure" where
  "builtAS h b sz fl =
     \<lparr>as_handle = h, as_buffer = \<lparr>bufHandle = b, bufSize = sz\<rparr>, as_filter = fl\<rparr>"

definition exampleGeometry ::
  "RgGeometryType \<Rightarrow> RgGeometryPassThroughType \<Rightarrow> RgGeometryUploadInfo" where
  "exampleGeometry gt pt =
     \<lparr>geomType = gt, passThroughType = pt, vertexCount = 3, layerMaterials = (1, 0, 0),
      geomTransform = identityTransform\<rparr>"


text \<open>
  Two frames on frame slot 0. The first submits one dynamic fully-opaque geometry and
  builds the top level; the second begins, submits no geometry at all and builds the top
  level again.
\<close>

definition firstFrame :: "Env \<Rightarrow> error + bool \<times> GlobalUniform \<times> ASManager" where
  "firstFrame env =
     thenE (BeginDynamicGeometry 0 newASManager) (\<lambda>m1.
     thenE (AddDynamicGeometry env
              (exampleGeometry RG_GEOMETRY_TYPE_DYNAMIC RG_GEOMETRY_PASS_THROUGH_TYPE_OPAQUE)
              0 m1) (\<lambda>(geomIndex, m2).
     thenE (SubmitDynamicGeometry env 0 m2) (\<lambda>m3.
     TryBuildTLAS env 0 exampleUniform m3)))"

definition emptySecondFrame :: "Env \<Rightarrow> error + bool \<times> GlobalUniform \<times> ASManager" where
  "emptySecondFrame env =
     thenE (firstFrame env) (\<lambda>(built, uniform, m4).
     thenE (BeginDynamicGeometry 0 m4) (\<lambda>m5.
     thenE (SubmitDynamicGeometry env 0 m5) (\<lambda>m6.
     TryBuildTLAS env 0 uniform m6)))"

text \<open>
  A static scene of one static-movable fully-opaque geometry, begun, added and submitted
  on a new manager.
\<close>

definition movableScene :: "Env \<Rightarrow> error + ASManager" where
  "movableScene env =
     thenE (AddStaticGeometry env
              (exampleGeometry RG_GEOMETRY_TYPE_STATIC_MOVABLE RG_GEOMETRY_PASS_THROUGH_TYPE_OPAQUE)
              (BeginStaticGeometry newASManager)) (\<lambda>(geomIndex, m).
     SubmitStaticGeometry env m)"

text \<open>
  A static scene of two static geometries, fully opaque and alpha-tested, begun, added and
  submitted on a new manager.
\<close>

definition twoStaticScene :: "Env \<Rightarrow> error + ASManager" where
  "twoStaticScene env =
     thenE (AddStaticGeometry env
              (exampleGeometry RG_GEOMETRY_TYPE_STATIC RG_GEOMETRY_PASS_THROUGH_TYPE_OPAQUE)
              (BeginStaticGeometry newASManager)) (\<lambda>(geomIndex0, m1).
     thenE (AddStaticGeometry env
              (exampleGeometry RG_GEOMETRY_TYPE_STATIC RG_GEOMETRY_PASS_THROUGH_TYPE_ALPHA_TESTED)
              m1) (\<lambda>(geomIndex1, m2).
     SubmitStaticGeometry env m2))"

text \<open>A translation by 5 along x.\<close>

definition translateX :: "real list" where
  "translateX = [1, 0, 0, 5,  0, 1, 0, 0,  0, 0, 1, 0]"

text \<open>A collector that holds one static fully-opaque geometry.\<close>

definition staticOpaqueCollector :: "Env \<Rightarrow> VertexCollector" where
  "staticOpaqueCollector env =
     snd (AddGeometry env
            (exampleGeometry RG_GEOMETRY_TYPE_STATIC RG_GEOMETRY_PASS_THROUGH_TYPE_OPAQUE)
            ([1, 0, 0], [0, 0, 0], [0, 0, 0]) \<lparr>vcGeometries = []\<rparr>)"

text \<open>
  Shader data over integers in place of floats, a matrix being a translation along all
  three axes. Every geometry is unindexed, starts at vertex 0 and has \<open>prevBase\<close> as its
  previous base vertex index; the model matrices of both frames are the identity; the
  current dynamic vertices are at 1, the previous ones at 2; the map from previous to
  current geometry yields no match for every geometry.
\<close>

definition exampleShaderData :: "32 word \<Rightarrow> (int, int) ShaderData" where
  "exampleShaderData prevBase =
     \<lparr>globalUniform = exampleUniform,
      globalUniformPrev = exampleUniform,
      positionsStride = 3,
      normalsStride = 3,
      staticPositions = (\<lambda>i. 0),
      staticNormals = (\<lambda>i. 0),
      dynamicPositions = (\<lambda>i. 1),
      dynamicNormals = (\<lambda>i. 0),
      prevDynamicPositions = (\<lambda>i. 2),
      staticIndices = (\<lambda>i. i),
      dynamicIndices = (\<lambda>i. i),
      prevDynamicIndices = (\<lambda>i. i),
      geometryInstances =
        (\<lambda>g. \<lparr>model = 0, prevModel = 0, giFlags = 0, baseVertexIndex = 0,
               baseIndexIndex = UINT32_MAX, prevBaseVertexIndex = prevBase,
               prevBaseIndexIndex = UINT32_MAX\<rparr>),
      geomIndexPrevToCur = (\<lambda>g. UINT32_MAX),
      mulPoint = (\<lambda>m v. case v of (x, y, z) \<Rightarrow> (x + m, y + m, z + m)),
      mulDirection = (\<lambda>m v. v),
      mulBary = (\<lambda>t bary. case t of (a, b, c) \<Rightarrow> a)\<rparr>"

section \<open>Properties of the instance assembly\<close>

lemmas ft_defs = CF_STATIC_NON_MOVABLE_def CF_STATIC_MOVABLE_def CF_DYNAMIC_def PT_OPAQUE_def
  PT_ALPHA_TESTED_def PT_BLEND_ADDITIVE_def PT_BLEND_UNDER_def
  VertexCollectorFilterGroup_ChangeFrequency_def VertexCollectorFilterGroup_PassThrough_def

lemmas instance_const_defs =
  INSTANCE_CUSTOM_INDEX_FLAG_DYNAMIC_def INSTANCE_MASK_HAS_SHADOWS_def
  SBT_INDEX_HITGROUP_FULLY_OPAQUE_def SBT_INDEX_HITGROUP_ALPHA_TESTED_def
  SBT_INDEX_HITGROUP_BLEND_ADDITIVE_def SBT_INDEX_HITGROUP_BLEND_UNDER_def
  VK_GEOMETRY_INSTANCE_FORCE_OPAQUE_BIT_KHR_def VK_GEOMETRY_INSTANCE_FORCE_NO_OPAQUE_BIT_KHR_def
  VK_GEOMETRY_INSTANCE_TRIANGLE_FACING_CULL_DISABLE_BIT_KHR_def

text \<open>
  Claim C7. For a structure with a valid handle whose filter is \<open>cf | pt\<close>, one
  change-frequency class and one pass-through class as the constructor makes them,
  \<open>SetupTLASInstance\<close> adds the instance, and: the custom index has the dynamic flag
  exactly for the dynamic class; the mask leaves out the shadow bit exactly for
  blend-additive and blend-under; the record offset is the one of the pass-through class;
  the flags force opaque exactly for the opaque class.
\<close>

theorem C7_instance_fields_follow_filter:
  assumes cf: "cf \<in> set VertexCollectorFilterGroup_ChangeFrequency"
    and pt: "pt \<in> set VertexCollectorFilterGroup_PassThrough"
    and fl: "as_filter a = cf OR pt"
    and h: "as_handle a \<noteq> VK_NULL_HANDLE"
  shows "fst (SetupTLASInstance env a inst) \<and>
    ((instanceCustomIndex (snd (SetupTLASInstance env a inst))
        AND ucast INSTANCE_CUSTOM_INDEX_FLAG_DYNAMIC \<noteq> 0) = (cf = CF_DYNAMIC)) \<and>
    ((instance_mask (snd (SetupTLASInstance env a inst)) AND ucast INSTANCE_MASK_HAS_SHADOWS = 0)
        = (pt = PT_BLEND_ADDITIVE \<or> pt = PT_BLEND_UNDER)) \<and>
    instanceShaderBindingTableRecordOffset (snd (SetupTLASInstance env a inst)) =
      ucast (if pt = PT_OPAQUE then SBT_INDEX_HITGROUP_FULLY_OPAQUE
             else if pt = PT_ALPHA_TESTED then SBT_INDEX_HITGROUP_ALPHA_TESTED
             else if pt = PT_BLEND_ADDITIVE then SBT_INDEX_HITGROUP_BLEND_ADDITIVE
             else SBT_INDEX_HITGROUP_BLEND_UNDER) \<and>
    ((flags (snd (SetupTLASInstance env a inst))
        AND ucast VK_GEOMETRY_INSTANCE_FORCE_OPAQUE_BIT_KHR \<noteq> 0) = (pt = PT_OPAQUE))"
proof -
  have cfs: "cf = 1 \<or> cf = 2 \<or> cf = 4"
    using cf by (auto simp: ft_defs)
  have pts: "pt = 8 \<or> pt = 16 \<or> pt = 32 \<or> pt = 64"
    using pt by (auto simp: ft_defs)
  show ?thesis
    using cfs pts h
    by (elim disjE; simp add: SetupTLASInstance_def fl ft_defs Let_def instance_const_defs)
qed

text \<open>
  Witness for C7: the dynamic blend-under structure with handle 7, set up on a zeroed
  instance.
\<close>

theorem C7_witness:
  "CF_DYNAMIC \<in> set VertexCollectorFilterGroup_ChangeFrequency \<and>
   PT_BLEND_UNDER \<in> set VertexCollectorFilterGroup_PassThrough \<and>
   as_filter (builtAS 7 8 64 (CF_DYNAMIC OR PT_BLEND_UNDER)) = CF_DYNAMIC OR PT_BLEND_UNDER \<and>
   as_handle (builtAS 7 8 64 (CF_DYNAMIC OR PT_BLEND_UNDER)) \<noteq> VK_NULL_HANDLE \<and>
   fst (SetupTLASInstance (exampleEnv False id (\<lambda>i. 0))
          (builtAS 7 8 64 (CF_DYNAMIC OR PT_BLEND_UNDER)) zeroInstance) \<and>
   instanceCustomIndex (snd (SetupTLASInstance (exampleEnv False id (\<lambda>i. 0))
          (builtAS 7 8 64 (CF_DYNAMIC OR PT_BLEND_UNDER)) zeroInstance)) = 1 \<and>
   instance_mask (snd (SetupTLASInstance (exampleEnv False id (\<lambda>i. 0))
          (builtAS 7 8 64 (CF_DYNAMIC OR PT_BLEND_UNDER)) zeroInstance)) = 254 \<and>
   instanceShaderBindingTableRecordOffset (snd (SetupTLASInstance (exampleEnv False id (\<lambda>i. 0))
          (builtAS 7 8 64 (CF_DYNAMIC OR PT_BLEND_UNDER)) zeroInstance)) = 3 \<and>
   flags (snd (SetupTLASInstance (exampleEnv False id (\<lambda>i. 0))
          (builtAS 7 8 64 (CF_DYNAMIC OR PT_BLEND_UNDER)) zeroInstance)) = 9"
  using C7_instance_fields_follow_filter
    [of CF_DYNAMIC PT_BLEND_UNDER "builtAS 7 8 64 (CF_DYNAMIC OR PT_BLEND_UNDER)"
        "exampleEnv False id (\<lambda>i. 0)" zeroInstance]
  by (simp add: SetupTLASInstance_def builtAS_def VK_NULL_HANDLE_def ft_defs Let_def
      instance_const_defs zeroInstance_def exampleEnv_def)

text \<open>
  Claim C9. The local instance list of \<open>TryBuildTLAS\<close> has 32 entries, fewer than
  \<open>MAX_TOP_LEVEL_INSTANCE_COUNT\<close> = 45, which sizes the frame's instance buffer and the
  local offset table (four ints per instance) and bounds the count in the assertion: on a
  list long enough, the loop body with \<open>assert\<close> compiled in adds the 44th instance and
  fails its assertion on the 45th.
\<close>

theorem C9_scratch_list_smaller_than_maximum:
  "length (instances (initialLocals env)) = 32 \<and>
   MAX_TOP_LEVEL_INSTANCE_COUNT = 45 \<and>
   length (instances (initialLocals env)) < MAX_TOP_LEVEL_INSTANCE_COUNT \<and>
   instanceBufferCapacity = MAX_TOP_LEVEL_INSTANCE_COUNT \<and>
   length (instanceGeomInfoOffset (initialLocals env)) = MAX_TOP_LEVEL_INSTANCE_COUNT * 4 \<and>
   map_sum id instanceCount
     (addInstance (exampleEnv True off g) False
        (builtAS 1 2 64 (CF_STATIC_NON_MOVABLE OR PT_OPAQUE))
        \<lparr>instanceCount = 43, instances = replicate 45 zeroInstance,
          instanceGeomInfoOffset = replicate 180 0\<rparr>) = Inr 44 \<and>
   addInstance (exampleEnv True off g) False
     (builtAS 1 2 64 (CF_STATIC_NON_MOVABLE OR PT_OPAQUE))
     \<lparr>instanceCount = 44, instances = replicate 45 zeroInstance,
       instanceGeomInfoOffset = replicate 180 0\<rparr> = Inl AssertionFailed"
  by (simp add: initialLocals_def MAX_TOP_LEVEL_INSTANCE_COUNT_def instanceBufferCapacity_def
      addInstance_def SetupTLASInstance_def exampleEnv_def builtAS_def VK_NULL_HANDLE_def
      ft_defs Let_def)





lemmas run_defs = TryBuildTLAS_def assembleTLAS_def addInstance_def SetupTLASInstance_def
  initialLocals_def memcpy_ints_def getGeometryIndex_def DestroyAS_def Buffer_Destroy_def
  CreateASBuffer_def Buffer_Init_def CreateAccelerationStructure_def AddTLAS_def BuildTopLevel_def
  ASBuildMemoryBarrier_def IsEmpty_def GetSize_def IsInitted_def emptyBuffer_def newAS_def
  newDevice_def newASManager_def allFilters_def instanceBufferCapacity_def
  MAX_TOP_LEVEL_INSTANCE_COUNT_def MAX_FRAMES_IN_FLIGHT_def MAX_BOTTOM_LEVEL_GEOMETRIES_COUNT_def
  UNIFORM_OFFSET_VEC4_COUNT_def VK_NULL_HANDLE_def

lemmas submit_defs = thenE_def BeginDynamicGeometry_def AddDynamicGeometry_def
  SubmitDynamicGeometry_def recreateDynamicBlas_def SetupBLAS_def AddGeometry_def
  filterOfGeometry_def
  GetASGeometries_def AreGeometriesEmpty_def Reset_def BeginCollecting_def EndCollecting_def
  CopyFromStaging_def AddBLAS_def BuildBottomLevel_def IsFastBuild_def

lemmas static_defs = AddStaticGeometry_def BeginStaticGeometry_def SubmitStaticGeometry_def
  destroyPreviousStatic_def setupStaticBlas_def SubmitAndWait_def ResubmitStaticMovable_def
  updateMovableBlas_def UpdateBLAS_def UpdateStaticMovableTransform_def UpdateTransform_def

lemma take_one_update: "0 < length xs \<Longrightarrow> take (Suc 0) (xs[0 := x]) = [x]"
  by (cases xs) auto

text \<open>
  Claim C3, at a failing input. After a frame with one dynamic fully-opaque geometry, a
  second frame on the same slot begins, submits nothing and builds the top level. The
  dynamic collector of the frame is empty, and yet the top level has one instance: it
  references the structure (handle 2) built in the first frame, which
  \<open>SubmitDynamicGeometry\<close> left alive when it returned early.
\<close>

theorem C3_empty_frame_keeps_stale_instance:
  "map_sum id
     (\<lambda>(built, u, m).
        (built, map accelerationStructureReference (instanceBuffers m ! 0),
         GetASGeometries (collectorDynamic m ! 0) (CF_DYNAMIC OR PT_OPAQUE),
         AreGeometriesEmpty (collectorDynamic m ! 0) CF_DYNAMIC,
         map as_handle (allDynamicBlas m ! 0),
         list_all (noStaleStructure (collectorDynamic m ! 0) CF_DYNAMIC)
           (allDynamicBlas m ! 0)))
     (emptySecondFrame (exampleEnv dbg off g))
   = Inr (True, [2], [], True, [2, 0, 0, 0], False)"
  by (simp add: emptySecondFrame_def firstFrame_def run_defs ft_defs submit_defs
      exampleEnv_def exampleUniform_def exampleGeometry_def Let_def take_one_update
      noStaleStructure_def)


text \<open>
  The static path, for comparison: when \<open>SubmitStaticGeometry\<close> returns, no static
  structure is stale, because the previous structures are destroyed before anything else
  and a structure is created only for a filter with geometry.
\<close>

lemma DestroyAS_null:
  "DestroyAS d a = (d1, a1) \<Longrightarrow> as_handle a1 = VK_NULL_HANDLE \<and> as_filter a1 = as_filter a"
  by (auto simp: DestroyAS_def split: prod.splits if_splits)

lemma destroy_loop_null:
  "forEachBlas (destroyPreviousStatic env fls) d xs = Inr (d1, xs1)
     \<Longrightarrow> list_all (\<lambda>a. as_filter a AND fls = 0 \<or> as_handle a = VK_NULL_HANDLE) xs1"
proof (induction xs arbitrary: d d1 xs1)
  case Nil
  then show ?case by simp
next
  case (Cons a xs)
  from Cons.prems obtain d2 a2 xs2 where
    step: "destroyPreviousStatic env fls d a = Inr (d2, a2)"
    and rest: "forEachBlas (destroyPreviousStatic env fls) d2 xs = Inr (d1, xs2)"
    and xs1: "xs1 = a2 # xs2"
    by (auto split: sum.splits prod.splits)
  have "as_filter a2 AND fls = 0 \<or> as_handle a2 = VK_NULL_HANDLE"
    using step DestroyAS_null[of d a d2 a2]
    by (auto simp: destroyPreviousStatic_def split: if_splits)
  with Cons.IH[OF rest] xs1 show ?case by simp
qed

lemma SetupBLAS_no_stale:
  "SetupBLAS env c d a = Inr (d', a') \<Longrightarrow> as_handle a = VK_NULL_HANDLE
     \<Longrightarrow> as_filter a' = as_filter a
         \<and> (as_handle a' = VK_NULL_HANDLE \<or> GetASGeometries c (as_filter a) \<noteq> [])"
  by (auto simp: SetupBLAS_def Let_def DestroyAS_def Buffer_Destroy_def CreateASBuffer_def
      Buffer_Init_def CreateAccelerationStructure_def AddBLAS_def
      split: if_splits sum.splits prod.splits)

lemma setup_loop_no_stale:
  "forEachBlas (setupStaticBlas env c fls) d xs = Inr (d1, xs1)
     \<Longrightarrow> list_all (\<lambda>a. as_filter a AND fls = 0 \<or> as_handle a = VK_NULL_HANDLE) xs
     \<Longrightarrow> list_all (noStaleStructure c fls) xs1"
proof (induction xs arbitrary: d d1 xs1)
  case Nil
  then show ?case by simp
next
  case (Cons a xs)
  from Cons.prems(1) obtain d2 a2 xs2 where
    step: "setupStaticBlas env c fls d a = Inr (d2, a2)"
    and rest: "forEachBlas (setupStaticBlas env c fls) d2 xs = Inr (d1, xs2)"
    and xs1: "xs1 = a2 # xs2"
    by (auto split: sum.splits prod.splits)
  have "noStaleStructure c fls a2"
    using step Cons.prems(2) SetupBLAS_no_stale[of env c d a d2 a2]
    by (auto simp: setupStaticBlas_def noStaleStructure_def split: if_splits)
  moreover have "list_all (noStaleStructure c fls) xs2"
    using Cons.IH[OF rest] Cons.prems(2) by simp
  ultimately show ?case using xs1 by simp
qed

lemma static_submit_leaves_no_stale_structure:
  assumes "SubmitStaticGeometry env m = Inr m'"
  shows "list_all (noStaleStructure (collectorStatic m') (CF_STATIC_NON_MOVABLE OR CF_STATIC_MOVABLE))
           (allStaticBlas m')"
proof -
  let ?fls = "CF_STATIC_NON_MOVABLE OR CF_STATIC_MOVABLE"
  from assms obtain d1 xs1 where
    loop: "forEachBlas (destroyPreviousStatic env ?fls) (dev m) (allStaticBlas m) = Inr (d1, xs1)"
    by (auto simp: SubmitStaticGeometry_def Let_def split: sum.splits)
  have null: "list_all (\<lambda>a. as_filter a AND ?fls = 0 \<or> as_handle a = VK_NULL_HANDLE) xs1"
    using destroy_loop_null[OF loop] .
  show ?thesis
  proof (cases "AreGeometriesEmpty (collectorStatic m) ?fls")
    case True
    then have "allStaticBlas m' = xs1"
      using assms loop
      by (auto simp: SubmitStaticGeometry_def Let_def EndCollecting_def split: if_splits)
    then show ?thesis
      using null by (auto simp: noStaleStructure_def list_all_iff)
  next
    case False
    then obtain d2 xs2 where
      second: "forEachBlas (setupStaticBlas env (collectorStatic m) ?fls) (CopyFromStaging True d1) xs1
                = Inr (d2, xs2)"
      and m': "allStaticBlas m' = xs2" "collectorStatic m' = collectorStatic m"
      using assms loop
      by (auto simp: SubmitStaticGeometry_def Let_def EndCollecting_def
          split: if_splits sum.splits)
    from setup_loop_no_stale[OF second null] m' show ?thesis by simp
  qed
qed

section \<open>Properties of geometry submission\<close>

text \<open>
  Claim C10. An upload info that is neither static nor static-movable makes
  \<open>AddStaticGeometry\<close> return \<open>UINT32_MAX\<close> with the manager as it was, and one that is
  not dynamic does the same to \<open>AddDynamicGeometry\<close>; this is the release build, and with
  \<open>assert\<close> compiled in both calls stop at \<open>assert(0)\<close>.
\<close>

theorem C10_wrong_geometry_type_adds_nothing:
  assumes "geomType infoS \<noteq> RG_GEOMETRY_TYPE_STATIC"
    and "geomType infoS \<noteq> RG_GEOMETRY_TYPE_STATIC_MOVABLE"
    and "geomType infoD \<noteq> RG_GEOMETRY_TYPE_DYNAMIC"
  shows "AddStaticGeometry env infoS m =
           (if assertsEnabled env then Inl AssertionFailed else Inr (UINT32_MAX, m)) \<and>
         AddDynamicGeometry env infoD frameIndex m =
           (if assertsEnabled env then Inl AssertionFailed else Inr (UINT32_MAX, m))"
  using assms by (simp add: AddStaticGeometry_def AddDynamicGeometry_def)

text \<open>
  Witness for C10: a dynamic geometry given to \<open>AddStaticGeometry\<close> and a static-movable
  one given to \<open>AddDynamicGeometry\<close>, in a release build.
\<close>

theorem C10_witness:
  "geomType (exampleGeometry RG_GEOMETRY_TYPE_DYNAMIC RG_GEOMETRY_PASS_THROUGH_TYPE_OPAQUE)
     \<noteq> RG_GEOMETRY_TYPE_STATIC \<and>
   geomType (exampleGeometry RG_GEOMETRY_TYPE_DYNAMIC RG_GEOMETRY_PASS_THROUGH_TYPE_OPAQUE)
     \<noteq> RG_GEOMETRY_TYPE_STATIC_MOVABLE \<and>
   geomType (exampleGeometry RG_GEOMETRY_TYPE_STATIC_MOVABLE RG_GEOMETRY_PASS_THROUGH_TYPE_OPAQUE)
     \<noteq> RG_GEOMETRY_TYPE_DYNAMIC \<and>
   AddStaticGeometry (exampleEnv False id (\<lambda>i. 0))
      (exampleGeometry RG_GEOMETRY_TYPE_DYNAMIC RG_GEOMETRY_PASS_THROUGH_TYPE_OPAQUE)
      newASManager = Inr (0xFFFFFFFF, newASManager) \<and>
   AddDynamicGeometry (exampleEnv False id (\<lambda>i. 0))
      (exampleGeometry RG_GEOMETRY_TYPE_STATIC_MOVABLE RG_GEOMETRY_PASS_THROUGH_TYPE_OPAQUE)
      0 newASManager = Inr (0xFFFFFFFF, newASManager)"
  using C10_wrong_geometry_type_adds_nothing
    [of "exampleGeometry RG_GEOMETRY_TYPE_DYNAMIC RG_GEOMETRY_PASS_THROUGH_TYPE_OPAQUE"
        "exampleGeometry RG_GEOMETRY_TYPE_STATIC_MOVABLE RG_GEOMETRY_PASS_THROUGH_TYPE_OPAQUE"
        "exampleEnv False id (\<lambda>i. 0)" newASManager 0]
  by (simp add: exampleGeometry_def exampleEnv_def UINT32_MAX_def)

text \<open>
  Destroying a structure a second time changes neither the structure nor the device.
\<close>

lemma DestroyAS_again:
  "DestroyAS d a = (d1, a1) \<Longrightarrow> as_filter a1 = as_filter a \<and> DestroyAS d' a1 = (d', a1)"
  by (auto simp: DestroyAS_def Buffer_Destroy_def emptyBuffer_def split: if_splits)

lemma destroy_loop_again:
  "forEachBlas (destroyPreviousStatic env fls) d xs = Inr (d1, xs1)
     \<Longrightarrow> forEachBlas (destroyPreviousStatic env fls) d' xs1 = Inr (d', xs1)"
proof (induction xs arbitrary: d d1 xs1 d')
  case Nil
  then show ?case by simp
next
  case (Cons a xs)
  from Cons.prems obtain d2 a2 xs2 where
    step: "destroyPreviousStatic env fls d a = Inr (d2, a2)"
    and rest: "forEachBlas (destroyPreviousStatic env fls) d2 xs = Inr (d1, xs2)"
    and xs1: "xs1 = a2 # xs2"
    by (auto split: sum.splits prod.splits)
  have again: "destroyPreviousStatic env fls d' a2 = Inr (d', a2)"
    using step DestroyAS_again[of d a d2 a2 d']
    by (auto simp: destroyPreviousStatic_def split: if_splits)
  from Cons.IH[OF rest] again xs1 show ?case by simp
qed

lemma destroy_loop_release:
  assumes "\<not> assertsEnabled env"
  shows "\<exists>r. forEachBlas (destroyPreviousStatic env fls) d xs = Inr r"
proof (induction xs arbitrary: d)
  case Nil
  then show ?case by simp
next
  case (Cons a xs)
  have "\<exists>d2 a2. destroyPreviousStatic env fls d a = Inr (d2, a2)"
    using assms by (cases "DestroyAS d a") (simp add: destroyPreviousStatic_def)
  then obtain d2 a2 where step: "destroyPreviousStatic env fls d a = Inr (d2, a2)" by blast
  from Cons.IH[of d2] obtain r where "forEachBlas (destroyPreviousStatic env fls) d2 xs = Inr r"
    by blast
  with step show ?case by (cases r) auto
qed

text \<open>
  \<open>DestroyAS\<close> and the first loop of \<open>SubmitStaticGeometry\<close>, in closed form.
\<close>

lemma DestroyAS_result:
  "DestroyAS d a = (d\<lparr>vkTrace := vkTrace d @ destroyEvents a\<rparr>, destroyedAS a)"
  by (cases a) (simp add: DestroyAS_def Buffer_Destroy_def destroyEvents_def destroyedAS_def
      IsInitted_def)

lemma destroy_loop_result:
  "forEachBlas (destroyPreviousStatic env fls) d xs = Inr (d1, xs1) \<Longrightarrow>
     xs1 = map (\<lambda>a. if as_filter a AND fls \<noteq> 0 then destroyedAS a else a) xs \<and>
     d1 = d\<lparr>vkTrace := vkTrace d
            @ concat (map destroyEvents [a \<leftarrow> xs. as_filter a AND fls \<noteq> 0])\<rparr>"
proof (induction xs arbitrary: d d1 xs1)
  case Nil
  then show ?case by simp
next
  case (Cons a xs)
  from Cons.prems obtain d2 a2 xs2 where
    step: "destroyPreviousStatic env fls d a = Inr (d2, a2)"
    and rest: "forEachBlas (destroyPreviousStatic env fls) d2 xs = Inr (d1, xs2)"
    and xs1: "xs1 = a2 # xs2"
    by (auto split: sum.splits prod.splits)
  have a2: "a2 = (if as_filter a AND fls \<noteq> 0 then destroyedAS a else a)"
    and d2: "d2 = d\<lparr>vkTrace := vkTrace d
            @ (if as_filter a AND fls \<noteq> 0 then destroyEvents a else [])\<rparr>"
    using step by (auto simp: destroyPreviousStatic_def DestroyAS_result split: if_splits)
  from Cons.IH[OF rest] show ?case
    by (simp add: xs1 a2 d2)
qed

text \<open>
  Claim C4 as stated fails. A static scene with one static-movable geometry is built;
  then the static geometry is begun again and submitted with nothing added. The collector
  holds no geometry at that second submit, no build is queued or recorded, and yet the
  structure built before (handle 2 on buffer 1) is destroyed: \<open>SubmitStaticGeometry\<close>
  destroys the previous static structures before it looks at the collector.
\<close>

theorem C4_empty_submit_destroys_built_structure:
  "thenE (movableScene (exampleEnv True id (\<lambda>i. 0))) (\<lambda>m.
     thenE (SubmitStaticGeometry (exampleEnv True id (\<lambda>i. 0)) (BeginStaticGeometry m)) (\<lambda>m1.
       Inr (vcGeometries (collectorStatic (BeginStaticGeometry m)),
            map as_handle (allStaticBlas m), map (\<lambda>a. bufHandle (as_buffer a)) (allStaticBlas m),
            map as_handle (allStaticBlas m1), map (\<lambda>a. bufHandle (as_buffer a)) (allStaticBlas m1),
            drop (length (vkTrace (dev m))) (vkTrace (dev m1)),
            bottomQueue (dev m1))))
   = (Inr ([], [0, 0, 0, 0, 2, 0, 0, 0], [0, 0, 0, 0, 1, 0, 0, 0],
          [0, 0, 0, 0, 0, 0, 0, 0], [0, 0, 0, 0, 0, 0, 0, 0],
          [EvDestroyBuffer 1, EvDestroyAS 2], []) :: error + _)"
  by (simp add: movableScene_def run_defs submit_defs static_defs ft_defs exampleEnv_def
      exampleGeometry_def Let_def)

text \<open>
  Claim C4, amended. With no static geometry in the collector, \<open>SubmitStaticGeometry\<close>
  returns (always in a release build), and when it returns it has taken the skip path
  after destroying: every structure of the static list with a static class has lost its
  handle and its buffer, the device has seen their destruction and nothing else (no copy
  from staging, no build), the builder queues are as they were; and calling it again on
  the manager it left returns that manager unchanged.
\<close>

theorem C4_empty_submit_destroys_then_changes_nothing:
  assumes empty: "AreGeometriesEmpty (collectorStatic m) (CF_STATIC_NON_MOVABLE OR CF_STATIC_MOVABLE)"
  shows "(\<not> assertsEnabled env \<longrightarrow> (\<exists>m1. SubmitStaticGeometry env m = Inr m1)) \<and>
         (\<forall>m1. SubmitStaticGeometry env m = Inr m1 \<longrightarrow>
            m1 = m\<lparr>dev := (dev m)\<lparr>vkTrace := vkTrace (dev m)
                      @ concat (map destroyEvents
                          [a \<leftarrow> allStaticBlas m.
                             as_filter a AND (CF_STATIC_NON_MOVABLE OR CF_STATIC_MOVABLE) \<noteq> 0])\<rparr>,
                    allStaticBlas :=
                      map (\<lambda>a. if as_filter a AND (CF_STATIC_NON_MOVABLE OR CF_STATIC_MOVABLE) \<noteq> 0
                                then destroyedAS a else a) (allStaticBlas m)\<rparr>
            \<and> SubmitStaticGeometry env m1 = Inr m1)"
proof (rule conjI; intro allI impI)
  {
    assume rel: "\<not> assertsEnabled env"
    from destroy_loop_release[OF rel, of "CF_STATIC_NON_MOVABLE OR CF_STATIC_MOVABLE" "dev m" "allStaticBlas m"]
    obtain r where "forEachBlas (destroyPreviousStatic env (CF_STATIC_NON_MOVABLE OR CF_STATIC_MOVABLE))
         (dev m) (allStaticBlas m) = Inr r" by blast
    then show "\<exists>m1. SubmitStaticGeometry env m = Inr m1"
      using rel empty by (cases r) (simp add: SubmitStaticGeometry_def Let_def EndCollecting_def)
  }
  fix m1
  assume first: "SubmitStaticGeometry env m = Inr m1"
  from first empty obtain d1 xs1 where
    loop: "forEachBlas (destroyPreviousStatic env (CF_STATIC_NON_MOVABLE OR CF_STATIC_MOVABLE))
             (dev m) (allStaticBlas m) = Inr (d1, xs1)"
    and ok: "\<not> (assertsEnabled env \<and> \<not> IsEmpty d1)"
    and m1: "m1 = m\<lparr>collectorStatic := collectorStatic m, dev := d1, allStaticBlas := xs1\<rparr>"
    by (auto simp: SubmitStaticGeometry_def Let_def EndCollecting_def split: sum.splits if_splits)
  have again: "forEachBlas (destroyPreviousStatic env (CF_STATIC_NON_MOVABLE OR CF_STATIC_MOVABLE)) d1 xs1
          = Inr (d1, xs1)"
    using destroy_loop_again[OF loop] .
  have second: "SubmitStaticGeometry env m1 = Inr m1"
    using again ok empty m1 by (simp add: SubmitStaticGeometry_def Let_def EndCollecting_def)
  from destroy_loop_result[OF loop] m1 second
  show "m1 = m\<lparr>dev := (dev m)\<lparr>vkTrace := vkTrace (dev m)
                      @ concat (map destroyEvents
                          [a \<leftarrow> allStaticBlas m.
                             as_filter a AND (CF_STATIC_NON_MOVABLE OR CF_STATIC_MOVABLE) \<noteq> 0])\<rparr>,
                    allStaticBlas :=
                      map (\<lambda>a. if as_filter a AND (CF_STATIC_NON_MOVABLE OR CF_STATIC_MOVABLE) \<noteq> 0
                                then destroyedAS a else a) (allStaticBlas m)\<rparr>
            \<and> SubmitStaticGeometry env m1 = Inr m1"
    by simp
qed

text \<open>
  \<open>UpdateBLAS\<close> leaves the structure as it is and queues at most one update request.
\<close>

lemma UpdateBLAS_result:
  "UpdateBLAS env c d a = Inr (d', a') \<Longrightarrow>
     a' = a \<and>
     d' = d\<lparr>bottomQueue := bottomQueue d @
            (if GetASGeometries c (as_filter a) \<noteq> [] then [updateRequest env c a] else [])\<rparr>"
  by (auto simp: UpdateBLAS_def Let_def AddBLAS_def updateRequest_def split: if_splits)

lemma UpdateBLAS_release:
  "\<not> assertsEnabled env \<Longrightarrow> \<exists>r. UpdateBLAS env c d a = Inr r"
  by (simp add: UpdateBLAS_def Let_def)

lemma update_loop_result:
  "forEachBlas (updateMovableBlas env c) d xs = Inr (d', xs') \<Longrightarrow>
     xs' = xs \<and>
     d' = d\<lparr>bottomQueue := bottomQueue d @ map (updateRequest env c) (movableWithGeometry c xs)\<rparr>"
proof (induction xs arbitrary: d d' xs')
  case Nil
  then show ?case by (simp add: movableWithGeometry_def)
next
  case (Cons a xs)
  from Cons.prems obtain d2 a2 xs2 where
    step: "updateMovableBlas env c d a = Inr (d2, a2)"
    and rest: "forEachBlas (updateMovableBlas env c) d2 xs = Inr (d', xs2)"
    and xs': "xs' = a2 # xs2"
    by (auto split: sum.splits prod.splits)
  have a2: "a2 = a"
    and d2: "d2 = d\<lparr>bottomQueue := bottomQueue d @ map (updateRequest env c) (movableWithGeometry c [a])\<rparr>"
    using step UpdateBLAS_result[of env c d a d2 a2]
    by (auto simp: updateMovableBlas_def movableWithGeometry_def split: if_splits)
  from Cons.IH[OF rest] have "xs2 = xs"
    and "d' = d2\<lparr>bottomQueue := bottomQueue d2 @ map (updateRequest env c) (movableWithGeometry c xs)\<rparr>"
    by simp_all
  then show ?case using a2 d2 xs' by (simp add: movableWithGeometry_def)
qed

lemma update_loop_release:
  assumes "\<not> assertsEnabled env"
  shows "\<exists>r. forEachBlas (updateMovableBlas env c) d xs = Inr r"
proof (induction xs arbitrary: d)
  case Nil
  then show ?case by simp
next
  case (Cons a xs)
  have "\<exists>d2 a2. updateMovableBlas env c d a = Inr (d2, a2)"
    using assms UpdateBLAS_release[OF assms, of c d a] by (auto simp: updateMovableBlas_def)
  then obtain d2 a2 where step: "updateMovableBlas env c d a = Inr (d2, a2)" by blast
  from Cons.IH[of d2] obtain r where "forEachBlas (updateMovableBlas env c) d2 xs = Inr r" by blast
  with step show ?case by (cases r) auto
qed

lemma AreGeometriesEmpty_UpdateTransform:
  "AreGeometriesEmpty (UpdateTransform i t c) fls = AreGeometriesEmpty c fls"
proof -
  have "list_all (\<lambda>g. cgFilter g AND fls = 0)
          (map (\<lambda>g. if cgIndex g = i then g\<lparr>cgInfo := (cgInfo g)\<lparr>geomTransform := t\<rparr>\<rparr> else g) xs)
        = list_all (\<lambda>g. cgFilter g AND fls = 0) xs" for xs
    by (induction xs) auto
  then show ?thesis
    by (simp add: AreGeometriesEmpty_def UpdateTransform_def)
qed

lemma UpdateTransform_sets_transform:
  "\<forall>g \<in> set (vcGeometries (UpdateTransform i t c)).
     cgIndex g = i \<longrightarrow> geomTransform (cgInfo g) = t"
proof -
  have "\<forall>g \<in> set (map (\<lambda>g. if cgIndex g = i
                then g\<lparr>cgInfo := (cgInfo g)\<lparr>geomTransform := t\<rparr>\<rparr> else g) xs).
     cgIndex g = i \<longrightarrow> geomTransform (cgInfo g) = t" for xs :: "CollectedGeometry list"
    by (induction xs) simp_all
  then show ?thesis
    by (simp add: UpdateTransform_def)
qed

text \<open>
  Claim C5. On a manager whose builder queue is empty, \<open>UpdateStaticMovableTransform\<close>
  followed by \<open>ResubmitStaticMovable\<close> returns (always in a release build), and when it
  returns: every static structure has the handle and the buffer it had; the collector is
  the old one with the new transform in the record of that index; the device gave out no
  handle; and the calls added are one batch of update requests, one for each
  static-movable structure with geometry, followed by the barrier, or nothing at all when
  there is no static-movable geometry.
\<close>

theorem C5_movable_update_keeps_structures:
  assumes empty: "IsEmpty (dev m)"
  shows
    "(\<not> assertsEnabled env \<longrightarrow>
        (\<exists>m'. ResubmitStaticMovable env (UpdateStaticMovableTransform geomIndex t m) = Inr m')) \<and>
     (\<forall>m'. ResubmitStaticMovable env (UpdateStaticMovableTransform geomIndex t m) = Inr m' \<longrightarrow>
        allStaticBlas m' = allStaticBlas m \<and>
        collectorStatic m' = UpdateTransform geomIndex t (collectorStatic m) \<and>
        (\<forall>g \<in> set (vcGeometries (collectorStatic m')).
           cgIndex g = geomIndex \<longrightarrow> geomTransform (cgInfo g) = t) \<and>
        handleCount (dev m') = handleCount (dev m) \<and>
        IsEmpty (dev m') \<and>
        vkTrace (dev m') = vkTrace (dev m) @
          (if AreGeometriesEmpty (collectorStatic m) CF_STATIC_MOVABLE then []
           else
             (case map (updateRequest env (UpdateTransform geomIndex t (collectorStatic m)))
                     (movableWithGeometry (UpdateTransform geomIndex t (collectorStatic m))
                        (allStaticBlas m)) of
                [] \<Rightarrow> []
              | r # rs \<Rightarrow> [EvBuildBottomLevel (r # rs)])
             @ [EvASBuildMemoryBarrier]))"
proof (rule conjI; intro allI impI)
  let ?mU = "UpdateStaticMovableTransform geomIndex t m"
  let ?c = "UpdateTransform geomIndex t (collectorStatic m)"
  {
    assume rel: "\<not> assertsEnabled env"
    from update_loop_release[OF rel, of ?c "dev m" "allStaticBlas m"]
    obtain r where "forEachBlas (updateMovableBlas env ?c) (dev m) (allStaticBlas m) = Inr r" by blast
    then show "\<exists>m'. ResubmitStaticMovable env ?mU = Inr m'"
      using rel by (cases r) (simp add: ResubmitStaticMovable_def UpdateStaticMovableTransform_def)
  }
  fix m'
  assume ret: "ResubmitStaticMovable env ?mU = Inr m'"
  have tr: "\<forall>g \<in> set (vcGeometries ?c). cgIndex g = geomIndex \<longrightarrow> geomTransform (cgInfo g) = t"
    using UpdateTransform_sets_transform[of geomIndex t "collectorStatic m"] .
  show "allStaticBlas m' = allStaticBlas m \<and>
        collectorStatic m' = ?c \<and>
        (\<forall>g \<in> set (vcGeometries (collectorStatic m')).
           cgIndex g = geomIndex \<longrightarrow> geomTransform (cgInfo g) = t) \<and>
        handleCount (dev m') = handleCount (dev m) \<and>
        IsEmpty (dev m') \<and>
        vkTrace (dev m') = vkTrace (dev m) @
          (if AreGeometriesEmpty (collectorStatic m) CF_STATIC_MOVABLE then []
           else
             (case map (updateRequest env ?c) (movableWithGeometry ?c (allStaticBlas m)) of
                [] \<Rightarrow> []
              | r # rs \<Rightarrow> [EvBuildBottomLevel (r # rs)])
             @ [EvASBuildMemoryBarrier])"
  proof (cases "AreGeometriesEmpty (collectorStatic m) CF_STATIC_MOVABLE")
    case True
    then have "m' = ?mU"
      using ret by (simp add: ResubmitStaticMovable_def UpdateStaticMovableTransform_def
          AreGeometriesEmpty_UpdateTransform)
    then show ?thesis
      using True tr empty by (simp add: UpdateStaticMovableTransform_def)
  next
    case False
    have "ResubmitStaticMovable env ?mU =
        (if assertsEnabled env \<and> \<not> IsEmpty (dev m) then Inl AssertionFailed
         else case forEachBlas (updateMovableBlas env ?c) (dev m) (allStaticBlas m) of
           Inl e \<Rightarrow> Inl e
         | Inr (d1, blas1) \<Rightarrow>
             Inr (m\<lparr>collectorStatic := ?c, dev := ASBuildMemoryBarrier (BuildBottomLevel d1),
                    allStaticBlas := blas1\<rparr>))"
      using False by (simp add: ResubmitStaticMovable_def UpdateStaticMovableTransform_def
          AreGeometriesEmpty_UpdateTransform)
    with ret obtain d1 xs1 where
      loop: "forEachBlas (updateMovableBlas env ?c) (dev m) (allStaticBlas m) = Inr (d1, xs1)"
      and m': "m' = m\<lparr>collectorStatic := ?c, dev := ASBuildMemoryBarrier (BuildBottomLevel d1),
                    allStaticBlas := xs1\<rparr>"
      by (auto split: if_splits sum.splits)
    from update_loop_result[OF loop] have xs1: "xs1 = allStaticBlas m"
      and d1: "d1 = (dev m)\<lparr>bottomQueue := bottomQueue (dev m) @
            map (updateRequest env ?c) (movableWithGeometry ?c (allStaticBlas m))\<rparr>"
      by simp_all
    show ?thesis
      using False tr empty
      by (simp add: m' xs1 d1 UpdateStaticMovableTransform_def ASBuildMemoryBarrier_def
          BuildBottomLevel_def IsEmpty_def split: list.splits)
  qed
qed


text \<open>
  Claim C6. For a filter with geometry, \<open>SetupBLAS\<close> returns exactly when the old buffer
  is large enough, or the device allocates the new buffer and either creates the structure
  or \<open>assert\<close> is compiled out. When it returns, the buffer is initialised and at least as
  large as the required build size, and the build is queued on the structure's handle.
  When the old buffer was missing or too small, the old buffer and structure were
  destroyed (where they existed), then a buffer of exactly the required size was created,
  and the structure on it when the device creates it (when it does not, the release build
  goes on with the null handle); otherwise nothing was destroyed or created.
\<close>

theorem C6_setup_blas_buffer_large_enough:
  assumes geoms: "GetASGeometries c (as_filter a) \<noteq> []"
  shows
    "((\<exists>r. SetupBLAS env c d a = Inr r) =
        ((IsInitted (as_buffer a)
          \<and> GetBottomBuildSizes env (GetASGeometries c (as_filter a)) (\<not> IsFastBuild (as_filter a))
              \<le> GetSize (as_buffer a))
         \<or> (deviceCanAllocate env
               (GetBottomBuildSizes env (GetASGeometries c (as_filter a))
                  (\<not> IsFastBuild (as_filter a)))
             \<and> (deviceCanCreateAS env
                   (GetBottomBuildSizes env (GetASGeometries c (as_filter a))
                      (\<not> IsFastBuild (as_filter a)))
                 \<or> \<not> assertsEnabled env)))) \<and>
     (\<forall>d' a'. SetupBLAS env c d a = Inr (d', a') \<longrightarrow>
        IsInitted (as_buffer a') \<and>
        GetBottomBuildSizes env (GetASGeometries c (as_filter a)) (\<not> IsFastBuild (as_filter a))
          \<le> GetSize (as_buffer a') \<and>
        bottomQueue d' = bottomQueue d @
          [\<lparr>brHandle = as_handle a',
            brPrimitiveCount = length (GetASGeometries c (as_filter a)),
            brSize = GetBottomBuildSizes env (GetASGeometries c (as_filter a))
                       (\<not> IsFastBuild (as_filter a)),
            brFastTrace = (\<not> IsFastBuild (as_filter a)), brUpdate = False\<rparr>] \<and>
        (if \<not> IsInitted (as_buffer a)
            \<or> GetSize (as_buffer a)
                 < GetBottomBuildSizes env (GetASGeometries c (as_filter a))
                     (\<not> IsFastBuild (as_filter a))
         then vkTrace d' = vkTrace d
                @ (if IsInitted (as_buffer a) then [EvDestroyBuffer (bufHandle (as_buffer a))] else [])
                @ (if as_handle a \<noteq> VK_NULL_HANDLE then [EvDestroyAS (as_handle a)] else [])
                @ [EvCreateBuffer (handleCount d + 1)
                     (GetBottomBuildSizes env (GetASGeometries c (as_filter a))
                        (\<not> IsFastBuild (as_filter a)))]
                @ (if deviceCanCreateAS env
                        (GetBottomBuildSizes env (GetASGeometries c (as_filter a))
                           (\<not> IsFastBuild (as_filter a)))
                   then [EvCreateAS (handleCount d + 2) (handleCount d + 1)] else [])
              \<and> as_buffer a' = \<lparr>bufHandle = handleCount d + 1,
                    bufSize = GetBottomBuildSizes env (GetASGeometries c (as_filter a))
                                (\<not> IsFastBuild (as_filter a))\<rparr>
              \<and> as_handle a' =
                    (if deviceCanCreateAS env
                          (GetBottomBuildSizes env (GetASGeometries c (as_filter a))
                             (\<not> IsFastBuild (as_filter a)))
                     then handleCount d + 2 else VK_NULL_HANDLE)
         else a' = a \<and> vkTrace d' = vkTrace d))"
  using geoms
  by (auto simp: SetupBLAS_def Let_def DestroyAS_def Buffer_Destroy_def CreateASBuffer_def
      Buffer_Init_def CreateAccelerationStructure_def AddBLAS_def IsInitted_def GetSize_def
      emptyBuffer_def VK_NULL_HANDLE_def split: if_splits sum.splits prod.splits)


section \<open>Witnesses of the submission properties\<close>

text \<open>
  Witness for C4: the scene of two static geometries, begun again with nothing added. The
  empty submit destroys both structures; a second one changes nothing.
\<close>

theorem C4_witness:
  "AreGeometriesEmpty
     (collectorStatic (BeginStaticGeometry (projr (twoStaticScene (exampleEnv True id (\<lambda>i. 0))))))
     (CF_STATIC_NON_MOVABLE OR CF_STATIC_MOVABLE) \<and>
   map_sum id (\<lambda>m1. (map as_handle (allStaticBlas m1), drop 7 (vkTrace (dev m1)),
                      SubmitStaticGeometry (exampleEnv True id (\<lambda>i. 0)) m1 = Inr m1))
     (SubmitStaticGeometry (exampleEnv True id (\<lambda>i. 0))
        (BeginStaticGeometry (projr (twoStaticScene (exampleEnv True id (\<lambda>i. 0))))))
   = Inr ([0, 0, 0, 0, 0, 0, 0, 0],
          [EvDestroyBuffer 1, EvDestroyAS 2, EvDestroyBuffer 3, EvDestroyAS 4], True)"
  using C4_empty_submit_destroys_then_changes_nothing
    [of "BeginStaticGeometry (projr (twoStaticScene (exampleEnv True id (\<lambda>i. 0))))"
        "exampleEnv True id (\<lambda>i. 0)"]
  by (simp add: twoStaticScene_def run_defs submit_defs static_defs ft_defs exampleEnv_def
      exampleGeometry_def Let_def destroyEvents_def destroyedAS_def)

text \<open>
  Witness for C6: a structure with a buffer of 32 bytes, one geometry of its filter and a
  required size of 64.
\<close>

theorem C6_witness:
  "GetASGeometries (staticOpaqueCollector (exampleEnv True id (\<lambda>i. 0)))
     (as_filter (builtAS 1 2 32 (CF_STATIC_NON_MOVABLE OR PT_OPAQUE))) \<noteq> [] \<and>
   SetupBLAS (exampleEnv True id (\<lambda>i. 0)) (staticOpaqueCollector (exampleEnv True id (\<lambda>i. 0)))
     (newDevice\<lparr>handleCount := 2\<rparr>) (builtAS 1 2 32 (CF_STATIC_NON_MOVABLE OR PT_OPAQUE))
   = Inr (\<lparr>handleCount = 4,
           bottomQueue = [\<lparr>brHandle = 4, brPrimitiveCount = 1, brSize = 64,
                           brFastTrace = True, brUpdate = False\<rparr>],
           topQueue = [],
           vkTrace = [EvDestroyBuffer 2, EvDestroyAS 1, EvCreateBuffer 3 64, EvCreateAS 4 3]\<rparr>,
          builtAS 4 3 64 (CF_STATIC_NON_MOVABLE OR PT_OPAQUE))"
  using C6_setup_blas_buffer_large_enough
    [of "staticOpaqueCollector (exampleEnv True id (\<lambda>i. 0))"
        "builtAS 1 2 32 (CF_STATIC_NON_MOVABLE OR PT_OPAQUE)"
        "exampleEnv True id (\<lambda>i. 0)" "newDevice\<lparr>handleCount := 2\<rparr>"]
  by (simp add: staticOpaqueCollector_def run_defs submit_defs ft_defs exampleEnv_def
      exampleGeometry_def builtAS_def Let_def)

text \<open>
  The same call when the device does not create the structure: the release build goes on
  with the new buffer and queues the build on the null handle; the build with \<open>assert\<close>
  compiled in stops in \<open>VK_CHECKERROR\<close>.
\<close>

lemma SetupBLAS_when_the_device_creates_no_structure:
  "SetupBLAS ((exampleEnv False id (\<lambda>i. 0))\<lparr>deviceCanCreateAS := (\<lambda>sz. False)\<rparr>)
     (staticOpaqueCollector (exampleEnv False id (\<lambda>i. 0)))
     (newDevice\<lparr>handleCount := 2\<rparr>) (builtAS 1 2 32 (CF_STATIC_NON_MOVABLE OR PT_OPAQUE))
   = Inr (\<lparr>handleCount = 3,
           bottomQueue = [\<lparr>brHandle = 0, brPrimitiveCount = 1, brSize = 64,
                           brFastTrace = True, brUpdate = False\<rparr>],
           topQueue = [],
           vkTrace = [EvDestroyBuffer 2, EvDestroyAS 1, EvCreateBuffer 3 64]\<rparr>,
          builtAS 0 3 64 (CF_STATIC_NON_MOVABLE OR PT_OPAQUE)) \<and>
   SetupBLAS ((exampleEnv True id (\<lambda>i. 0))\<lparr>deviceCanCreateAS := (\<lambda>sz. False)\<rparr>)
     (staticOpaqueCollector (exampleEnv True id (\<lambda>i. 0)))
     (newDevice\<lparr>handleCount := 2\<rparr>) (builtAS 1 2 32 (CF_STATIC_NON_MOVABLE OR PT_OPAQUE))
   = Inl AssertionFailed"
  by (simp add: staticOpaqueCollector_def run_defs submit_defs ft_defs exampleEnv_def
      exampleGeometry_def builtAS_def Let_def)


text \<open>
  Witness for C5: the scene of one static-movable geometry, moved by 5 along x.
\<close>

theorem C5_witness:
  "IsEmpty (dev (projr (movableScene (exampleEnv True id (\<lambda>i. 0))))) \<and>
   map_sum id
     (\<lambda>m'. (allStaticBlas m' = allStaticBlas (projr (movableScene (exampleEnv True id (\<lambda>i. 0)))),
             map (\<lambda>g. geomTransform (cgInfo g)) (vcGeometries (collectorStatic m')),
             drop 5 (vkTrace (dev m'))))
     (ResubmitStaticMovable (exampleEnv True id (\<lambda>i. 0))
        (UpdateStaticMovableTransform 40960 translateX
           (projr (movableScene (exampleEnv True id (\<lambda>i. 0))))))
   = Inr (True, [translateX],
          [EvBuildBottomLevel [\<lparr>brHandle = 2, brPrimitiveCount = 1, brSize = 64,
                                 brFastTrace = True, brUpdate = True\<rparr>],
           EvASBuildMemoryBarrier])"
  using C5_movable_update_keeps_structures
    [of "projr (movableScene (exampleEnv True id (\<lambda>i. 0)))" "exampleEnv True id (\<lambda>i. 0)"
        40960 translateX]
  by (simp add: movableScene_def run_defs submit_defs static_defs ft_defs exampleEnv_def
      exampleGeometry_def Let_def movableWithGeometry_def updateRequest_def)

section \<open>The instance assembly on the states of the manager\<close>



































text \<open>
  The lookup of VertexData.inl reads int \<open>instanceID\<close> of the table, within its 12 vectors.
\<close>

lemma getGeometryIndex_reads_int:
  "getGeometryIndex u i lgi =
     (if i < 4 * UNIFORM_OFFSET_VEC4_COUNT \<and> i < length (uniformInstanceGeomInfoOffset u)
      then Some (uniformInstanceGeomInfoOffset u ! i + lgi) else None)"
proof -
  have "4 * (i div 4) + i mod 4 = i" by simp
  then show ?thesis
    by (auto simp: getGeometryIndex_def UNIFORM_OFFSET_VEC4_COUNT_def)
qed





section \<open>Properties of the triangle fetch\<close>

lemmas shader_defs = getTriangle_def getTriangle_PositionAndNormal_def
  getCurrentGeometryIndexByPrev_def usesPreviousFrame_def previousLocalPositions_def
  localNormals_def isDynamicInstance_def


lemmas shader_eval_defs = exampleShaderData_def exampleUniform_def getGeometryIndex_def
      UNIFORM_OFFSET_VEC4_COUNT_def UINT32_MAX_def INSTANCE_CUSTOM_INDEX_FLAG_DYNAMIC_def
      getVertIndicesDynamic_def getPrevVertIndicesDynamic_def getVertIndices_def map3_def
      getDynamicVerticesPositions_def getPrevDynamicVerticesPositions_def getVec3_def
      getDynamicVerticesNormals_def Let_def currentLocalPositions_def

text \<open>
  Claim C8 as stated fails. Here the map from previous to current geometry yields the
  no-match sentinel for every geometry, and \<open>getCurrentGeometryIndexByPrev\<close> reports no
  match; the dynamic geometry fetched has a previous base vertex index. \<open>getTriangle\<close>
  does not read the map: the previous positions are those of the previous frame's
  vertices (2), not the current positions (1).
\<close>

theorem C8_no_match_in_map_does_not_give_fallback:
  "getGeometryIndex (globalUniform (exampleShaderData 0)) 0 0 = Some 0 \<and>
   geomIndexPrevToCur (exampleShaderData 0) 0 = UINT32_MAX \<and>
   getCurrentGeometryIndexByPrev (exampleShaderData 0) 0 0 = Some (False, UINT32_MAX) \<and>
   map_option trPositions (getTriangle (exampleShaderData 0) 0 1 0 0)
     = Some ((1, 1, 1), (1, 1, 1), (1, 1, 1)) \<and>
   map_option trPrevPositions (getTriangle (exampleShaderData 0) 0 1 0 0)
     = Some ((2, 2, 2), (2, 2, 2), (2, 2, 2)) \<and>
   map_option trPrevPositions (getTriangle (exampleShaderData 0) 0 1 0 0)
     \<noteq> map_option trPositions (getTriangle (exampleShaderData 0) 0 1 0 0)"
  by (simp add: shader_defs shader_eval_defs)

text \<open>
  Claim C8, amended. For an instance within the offset table, both fetches return (there
  is no error), with the current positions and normals, and with previous positions and
  normals that are previous-frame data exactly when the previous base vertex index is not
  \<open>UINT32_MAX\<close> and the geometry is dynamic or movable, and the current frame's own
  otherwise. The map from previous to current geometry is read by
  \<open>getCurrentGeometryIndexByPrev\<close> alone, which reports a match exactly when the entry is
  not \<open>UINT32_MAX\<close> and hands back the entry.
\<close>

theorem C8_previous_data_follows_base_vertex_sentinel:
  assumes gi: "getGeometryIndex (globalUniform sd) instanceID localGeometryIndex = Some g"
    and gp: "getGeometryIndex (globalUniformPrev sd) prevInstanceID prevLocalGeometryIndex = Some pg"
  shows
    "getTriangle sd instanceID customIndex localGeometryIndex primitiveId =
       Some \<lparr>trPositions =
                map3 (mulPoint sd (model (geometryInstances sd g)))
                  (currentLocalPositions sd g customIndex primitiveId),
             trPrevPositions =
               (if usesPreviousFrame sd g customIndex
                then map3 (mulPoint sd (prevModel (geometryInstances sd g)))
                       (previousLocalPositions sd g customIndex primitiveId)
                else map3 (mulPoint sd (model (geometryInstances sd g)))
                       (currentLocalPositions sd g customIndex primitiveId)),
             trNormals =
                map3 (mulDirection sd (model (geometryInstances sd g)))
                  (localNormals sd g customIndex primitiveId)\<rparr> \<and>
     getTriangle_PositionAndNormal sd instanceID customIndex localGeometryIndex primitiveId bary =
       Some (mulPoint sd (model (geometryInstances sd g))
               (mulBary sd (currentLocalPositions sd g customIndex primitiveId) bary),
             (if usesPreviousFrame sd g customIndex
              then mulPoint sd (prevModel (geometryInstances sd g))
                     (mulBary sd (previousLocalPositions sd g customIndex primitiveId) bary)
              else mulPoint sd (model (geometryInstances sd g))
                     (mulBary sd (currentLocalPositions sd g customIndex primitiveId) bary)),
             mulDirection sd (model (geometryInstances sd g))
               (mulBary sd (localNormals sd g customIndex primitiveId) bary),
             (if usesPreviousFrame sd g customIndex
              then mulDirection sd (prevModel (geometryInstances sd g))
                     (mulBary sd (localNormals sd g customIndex primitiveId) bary)
              else mulDirection sd (model (geometryInstances sd g))
                     (mulBary sd (localNormals sd g customIndex primitiveId) bary))) \<and>
     getCurrentGeometryIndexByPrev sd prevInstanceID prevLocalGeometryIndex
       = Some (geomIndexPrevToCur sd pg \<noteq> UINT32_MAX, geomIndexPrevToCur sd pg)"
  using gi gp
  by (simp add: shader_defs currentLocalPositions_def Let_def)

text \<open>
  Witness for C8: a dynamic geometry without previous base vertex index; the previous
  positions are the current ones.
\<close>

theorem C8_witness:
  "getGeometryIndex (globalUniform (exampleShaderData UINT32_MAX)) 0 0 = Some 0 \<and>
   getGeometryIndex (globalUniformPrev (exampleShaderData UINT32_MAX)) 0 0 = Some 0 \<and>
   \<not> usesPreviousFrame (exampleShaderData UINT32_MAX) 0 1 \<and>
   getTriangle (exampleShaderData UINT32_MAX) 0 1 0 0 =
     Some \<lparr>trPositions = ((1, 1, 1), (1, 1, 1), (1, 1, 1)),
           trPrevPositions = ((1, 1, 1), (1, 1, 1), (1, 1, 1)),
           trNormals = ((0, 0, 0), (0, 0, 0), (0, 0, 0))\<rparr> \<and>
   getTriangle_PositionAndNormal (exampleShaderData UINT32_MAX) 0 1 0 0 (0, 0) =
     Some ((1, 1, 1), (1, 1, 1), (0, 0, 0), (0, 0, 0)) \<and>
   getCurrentGeometryIndexByPrev (exampleShaderData UINT32_MAX) 0 0 = Some (False, UINT32_MAX)"
  using C8_previous_data_follows_base_vertex_sentinel
    [of "exampleShaderData UINT32_MAX" 0 0 0 0 0 0 1 0 "(0, 0)"]
  by (simp add: shader_defs shader_eval_defs)

end
